theory Spec2Isabelle
  imports Main "HOL-Library.Sublist" "HOL-Library.Product_Lexorder"
begin


section \<open>JavaScript strings\<close>

text \<open>
  Source text is a \<^typ>\<open>string\<close>: one \<^typ>\<open>char\<close> per code unit, covering the
  code units 0 to 255. The helpers below are the String methods the program calls.
\<close>

fun startsWith :: "string \<Rightarrow> string \<Rightarrow> bool" where
  "startsWith s [] = True"
| "startsWith [] (p # ps) = False"
| "startsWith (c # cs) (p # ps) = (c = p \<and> startsWith cs ps)"

fun includes_str :: "string \<Rightarrow> string \<Rightarrow> bool" where
  "includes_str [] sub = (sub = [])"
| "includes_str (c # cs) sub = (startsWith (c # cs) sub \<or> includes_str cs sub)"

definition toLowerChar :: "char \<Rightarrow> char" where
  "toLowerChar c =
     (let n = (of_char c :: nat) in
      if (65 \<le> n \<and> n \<le> 90) \<or> (192 \<le> n \<and> n \<le> 222 \<and> n \<noteq> 215)
      then char_of (n + 32) else c)"

definition toLowerCase :: "string \<Rightarrow> string" where
  "toLowerCase s = map toLowerChar s"

definition digitChar :: "nat \<Rightarrow> char" where
  "digitChar d = ''0123456789abcdef'' ! d"

function toStringRadix :: "nat \<Rightarrow> nat \<Rightarrow> string" where
  "toStringRadix b n =
     (if n < b \<or> b < 2 then [digitChar n]
      else toStringRadix b (n div b) @ [digitChar (n mod b)])"
  by pat_completeness auto
termination
  by (relation "measure (\<lambda>(b, n). n)") auto

declare toStringRadix.simps [simp del]

definition str :: "nat \<Rightarrow> string" where
  "str n = toStringRadix 10 n"

section \<open>Data model (state.js)\<close>

record Token =
  token_type :: string
  token_value :: string
  line :: int
  column :: int

definition tok :: "string \<Rightarrow> string \<Rightarrow> int \<Rightarrow> int \<Rightarrow> Token" where
  "tok t v l c = \<lparr>token_type = t, token_value = v, line = l, column = c\<rparr>"

datatype node_extra =
    NoExtra
  | FunctionExtra string "(string \<times> string) list"
  | PointerExtra

datatype ASTNode =
  ASTNode (node_type: string) (node_value: "string option")
          (children: "ASTNode list") (extra: node_extra)

record MemoryCell =
  cell_value :: nat
  cell_name :: string
  cell_type :: string

record StackVar =
  var_name :: string
  var_value :: nat
  var_address :: nat
  var_type :: string

datatype StackChange = Add StackVar | Update StackVar | Remove

record HeapDelta =
  hd_address :: nat
  hd_size :: nat
  hd_freed :: bool

record Changes =
  memory :: "(nat \<times> MemoryCell) list"
  stack :: "(string \<times> StackChange) list"
  heap :: "(nat \<times> HeapDelta) list"
  saida :: "string option"

record ExecutionStep =
  step_type :: string
  step_line :: int
  description :: string
  changes :: Changes

record FrameVar =
  fv_value :: nat
  fv_address :: nat
  fv_type :: string

record StackFrame =
  functionName :: string
  returnAddress :: nat
  variables :: "string \<rightharpoonup> FrameVar"

datatype HeapContent = Uninitialized | Values "(nat \<times> nat) list"

record HeapBlock =
  hb_address :: nat
  hb_size :: nat
  hb_content :: HeapContent
  hb_freed :: bool

record ErrorEntry =
  err_message :: string
  err_type :: string

record AppState =
  code :: string
  tokens :: "Token list"
  ast :: "ASTNode option"
  app_memory :: "nat \<rightharpoonup> MemoryCell"
  app_stack :: "StackFrame list"
  app_heap :: "nat \<rightharpoonup> HeapBlock"
  consoleOutput :: string
  errors :: "ErrorEntry list"

text \<open>
  \<open>addError\<close> appends one entry to the error log. The entry's timestamp is the wall
  clock and is left out; \<open>updateState\<close> then notifies the subscribers, which belong to
  the display layer and are taken to return normally.
\<close>

definition addError :: "string \<Rightarrow> string \<Rightarrow> AppState \<Rightarrow> AppState" where
  "addError message type st =
     st\<lparr>errors := errors st @ [\<lparr>err_message = message, err_type = type\<rparr>]\<rparr>"

definition noChanges :: Changes where
  "noChanges = \<lparr>memory = [], stack = [], heap = [], saida = None\<rparr>"

definition mkStep :: "string \<Rightarrow> int \<Rightarrow> string \<Rightarrow> Changes \<Rightarrow> ExecutionStep" where
  "mkStep t l d c = \<lparr>step_type = t, step_line = l, description = d, changes = c\<rparr>"

definition cell :: "nat \<Rightarrow> string \<Rightarrow> string \<Rightarrow> MemoryCell" where
  "cell v n t = \<lparr>cell_value = v, cell_name = n, cell_type = t\<rparr>"

definition svar :: "string \<Rightarrow> nat \<Rightarrow> nat \<Rightarrow> string \<Rightarrow> StackVar" where
  "svar n v a t = \<lparr>var_name = n, var_value = v, var_address = a, var_type = t\<rparr>"

definition newStackFrame :: "string \<Rightarrow> nat \<Rightarrow> StackFrame" where
  "newStackFrame f r = \<lparr>functionName = f, returnAddress = r, variables = Map.empty\<rparr>"

definition addVariable :: "string \<Rightarrow> nat \<Rightarrow> nat \<Rightarrow> string \<Rightarrow> StackFrame \<Rightarrow> StackFrame" where
  "addVariable n v a t fr =
     fr\<lparr>variables := (variables fr)(n \<mapsto> \<lparr>fv_value = v, fv_address = a, fv_type = t\<rparr>)\<rparr>"

definition updateVariable :: "string \<Rightarrow> nat \<Rightarrow> StackFrame \<Rightarrow> StackFrame" where
  "updateVariable n v fr =
     (case variables fr n of
        None \<Rightarrow> fr
      | Some x \<Rightarrow> fr\<lparr>variables := (variables fr)(n \<mapsto> x\<lparr>fv_value := v\<rparr>)\<rparr>)"


section \<open>Trace generator (class Interpreter)\<close>

definition baseAddress :: nat where
  "baseAddress = 0x1000"

definition heapBase :: nat where
  "heapBase = 0x8000"

definition truthy :: "string option \<Rightarrow> bool" where
  "truthy v = (case v of None \<Rightarrow> False | Some s \<Rightarrow> s \<noteq> [])"

fun findFunctions :: "ASTNode \<Rightarrow> string list" where
  "findFunctions (ASTNode t v cs ex) =
     (if t = ''function_definition'' \<and> truthy v then [the v] else [])
     @ concat (map findFunctions cs)"

fun findRecursiveCalls :: "string list \<Rightarrow> ASTNode \<Rightarrow> string option \<Rightarrow> bool" where
  "findRecursiveCalls functionNames (ASTNode t v cs ex) currentFunction =
     (if t = ''call_expression'' \<and> truthy v \<and> the v \<in> set functionNames
         \<and> v = (if t = ''function_definition'' \<and> truthy v then v else currentFunction)
      then True
      else list_ex (\<lambda>child. findRecursiveCalls functionNames child
                      (if t = ''function_definition'' \<and> truthy v then v else currentFunction)) cs)"

definition hasRecursion :: "AppState \<Rightarrow> bool" where
  "hasRecursion st =
     (case ast st of
        None \<Rightarrow> False
      | Some root \<Rightarrow> findRecursiveCalls (findFunctions root) root None)"

definition determineCodeType :: "AppState \<Rightarrow> string" where
  "determineCodeType st =
     (let c = toLowerCase (code st) in
      if includes_str c ''malloc('' \<or> includes_str c ''free('' then ''dynamic_allocation''
      else if includes_str c ''struct '' then ''structures''
      else if includes_str c ''fopen('' \<or> includes_str c ''fclose('' then ''file_io''
      else if includes_str c ''switch('' \<or> includes_str c ''case '' then ''switch_case''
      else if includes_str c ''#define '' then ''preprocessor''
      else if includes_str c ''<<'' \<or> includes_str c ''>>'' \<or> includes_str c '' & ''
        then ''bitwise''
      else if hasRecursion st then ''recursion''
      else if includes_str c ''['' \<and> includes_str c '']'' then ''arrays''
      else ''basic'')"

definition findLastLine :: "AppState \<Rightarrow> int" where
  "findLastLine st =
     (if length (tokens st) = 0 then 1
      else fold max (map line (tokens st)) (line (hd (tokens st))))"

text \<open>
  The generators push a frame for \<open>main\<close> on the simulated stack and keep changing it
  through their own reference; the model changes the last frame of the stack, which is
  that frame. \<open>setMemoryValue\<close> and \<open>onHeapBlock\<close> change a cell or a block that
  the same generator has stored before, so the entry they read is there.
\<close>

definition pushFrame :: "StackFrame \<Rightarrow> AppState \<Rightarrow> AppState" where
  "pushFrame fr st = st\<lparr>app_stack := app_stack st @ [fr]\<rparr>"

definition onMainFrame :: "(StackFrame \<Rightarrow> StackFrame) \<Rightarrow> AppState \<Rightarrow> AppState" where
  "onMainFrame f st =
     st\<lparr>app_stack := butlast (app_stack st) @ [f (last (app_stack st))]\<rparr>"

definition setMemory :: "nat \<Rightarrow> MemoryCell \<Rightarrow> AppState \<Rightarrow> AppState" where
  "setMemory a c st = st\<lparr>app_memory := (app_memory st)(a \<mapsto> c)\<rparr>"

definition setMemoryValue :: "nat \<Rightarrow> nat \<Rightarrow> AppState \<Rightarrow> AppState" where
  "setMemoryValue a v st =
     st\<lparr>app_memory := (app_memory st)(a \<mapsto> (the (app_memory st a))\<lparr>cell_value := v\<rparr>)\<rparr>"

definition print :: "string \<Rightarrow> AppState \<Rightarrow> AppState" where
  "print s st = st\<lparr>consoleOutput := consoleOutput st @ s\<rparr>"

definition declStep :: "int \<Rightarrow> string \<Rightarrow> nat \<Rightarrow> string \<Rightarrow> nat \<Rightarrow> string \<Rightarrow> ExecutionStep" where
  "declStep l d a n v t =
     mkStep ''declaration'' l d
       (noChanges\<lparr>memory := [(a, cell v n t)], stack := [(''main'', Add (svar n v a t))]\<rparr>)"

definition assignStep :: "int \<Rightarrow> string \<Rightarrow> nat \<Rightarrow> string \<Rightarrow> nat \<Rightarrow> string \<Rightarrow> ExecutionStep" where
  "assignStep l d a n v t =
     mkStep ''assignment'' l d
       (noChanges\<lparr>memory := [(a, cell v n t)], stack := [(''main'', Update (svar n v a t))]\<rparr>)"

definition callStep :: "int \<Rightarrow> string \<Rightarrow> string \<Rightarrow> ExecutionStep" where
  "callStep l d out = mkStep ''call'' l d (noChanges\<lparr>saida := Some out\<rparr>)"

definition returnStep :: "int \<Rightarrow> ExecutionStep" where
  "returnStep l =
     mkStep ''return'' l ''Return from main function''
       (noChanges\<lparr>stack := [(''main'', Remove)]\<rparr>)"


definition newline :: string where
  "newline = [CHR 0x0A]"

definition generateStepsForVariablesAndPointers ::
  "ExecutionStep list \<Rightarrow> AppState \<Rightarrow> ExecutionStep list \<times> AppState" where
  "generateStepsForVariablesAndPointers steps st =
     (let currentAddress = baseAddress;
          st = pushFrame (newStackFrame ''main'' 0) st;
          xAddress = currentAddress;
          currentAddress = currentAddress + 4;
          steps = steps @ [declStep 4 ''Declaration of variable x with value 10''
                             xAddress ''x'' 10 ''int''];
          st = onMainFrame (addVariable ''x'' 10 xAddress ''int'') st;
          st = setMemory xAddress (cell 10 ''x'' ''int'') st;
          yAddress = currentAddress;
          currentAddress = currentAddress + 4;
          steps = steps @ [declStep 5 ''Declaration of variable y with value 20''
                             yAddress ''y'' 20 ''int''];
          st = onMainFrame (addVariable ''y'' 20 yAddress ''int'') st;
          st = setMemory yAddress (cell 20 ''y'' ''int'') st;
          ptrAddress = currentAddress;
          currentAddress = currentAddress + 8;
          steps = steps @ [declStep 6 ''Declaration of pointer ptr pointing to x''
                             ptrAddress ''ptr'' xAddress ''int*''];
          st = onMainFrame (addVariable ''ptr'' xAddress ptrAddress ''int*'') st;
          st = setMemory ptrAddress (cell xAddress ''ptr'' ''int*'') st;
          steps = steps @ [callStep 8 ''Printf function call showing x and y values''
                             (''x = 10, y = 20'' @ newline)];
          st = print (''x = 10, y = 20'' @ newline) st;
          steps = steps @ [callStep 9 ''Printf function call showing value pointed by ptr''
                             (''*ptr = 10'' @ newline)];
          st = print (''*ptr = 10'' @ newline) st;
          steps = steps @ [assignStep 11 ''Assignment of 30 to the value pointed by ptr (x)''
                             xAddress ''x'' 30 ''int''];
          st = onMainFrame (updateVariable ''x'' 30) st;
          st = setMemoryValue xAddress 30 st;
          steps = steps @ [callStep 12 ''Printf function call showing x value after change''
                             (''After *ptr = 30, x = 30'' @ newline)];
          st = print (''After *ptr = 30, x = 30'' @ newline) st;
          steps = steps @ [assignStep 14 ''Assignment of y address to ptr''
                             ptrAddress ''ptr'' yAddress ''int*''];
          st = onMainFrame (updateVariable ''ptr'' yAddress) st;
          st = setMemoryValue ptrAddress yAddress st;
          steps = steps @ [assignStep 15 ''Assignment of 40 to the value pointed by ptr (y)''
                             yAddress ''y'' 40 ''int''];
          st = onMainFrame (updateVariable ''y'' 40) st;
          st = setMemoryValue yAddress 40 st;
          steps = steps @ [callStep 16 ''Printf function call showing y value after change''
                             (''After ptr = &y and *ptr = 40, y = 40'' @ newline)];
          st = print (''After ptr = &y and *ptr = 40, y = 40'' @ newline) st;
          steps = steps @ [returnStep 18]
      in (steps, st))"

definition initialValues :: "nat list" where
  "initialValues = [10, 20, 30, 40, 50]"

definition generateStepsForArraysAndPointers ::
  "ExecutionStep list \<Rightarrow> AppState \<Rightarrow> ExecutionStep list \<times> AppState" where
  "generateStepsForArraysAndPointers steps st =
     (let currentAddress = baseAddress;
          st = pushFrame (newStackFrame ''main'' 0) st;
          arraySize = 5;
          intSize = 4;
          arrayAddress = currentAddress;
          currentAddress = currentAddress + arraySize * intSize;
          memoryChanges =
            map (\<lambda>i. (arrayAddress + i * intSize,
                       cell (initialValues ! i) (''numeros['' @ str i @ '']'') ''int''))
                [0 ..< arraySize];
          steps = steps @ [mkStep ''declaration'' 5
                     ''Declaration and initialization of array numeros with 5 elements''
                     (noChanges\<lparr>memory := memoryChanges,
                        stack := [(''main'',
                          Add (svar ''numeros'' arrayAddress arrayAddress ''int[5]''))]\<rparr>)];
          st = onMainFrame (addVariable ''numeros'' arrayAddress arrayAddress ''int[5]'') st;
          st = fold (\<lambda>(a, c). setMemory a c) memoryChanges st;
          ptrAddress = currentAddress;
          currentAddress = currentAddress + 8;
          steps = steps @ [declStep 6
                     ''Declaration of pointer ptr initialized with numeros array address''
                     ptrAddress ''ptr'' arrayAddress ''int*''];
          st = onMainFrame (addVariable ''ptr'' arrayAddress ptrAddress ''int*'') st;
          st = setMemory ptrAddress (cell arrayAddress ''ptr'' ''int*'') st;
          out1 = ''Endere'' @ [CHR 0xE7] @ ''o de numeros: 0x''
                   @ toStringRadix 16 arrayAddress @ newline;
          steps = steps @ [callStep 8 ''Printf function call showing the array address'' out1];
          st = print out1 st;
          out2 = ''Valor de ptr: 0x'' @ toStringRadix 16 arrayAddress @ newline;
          steps = steps @ [callStep 9 ''Printf function call showing pointer ptr value'' out2];
          st = print out2 st;
          steps = steps @ concat (map (\<lambda>i.
                    [mkStep ''execution'' 11
                       (''Loop iteration '' @ str (i + 1) @ '' - accessing array elements'')
                       noChanges,
                     callStep 13 (''Printf function call showing array element '' @ str i)
                       (''numeros['' @ str i @ ''] = '' @ str (initialValues ! i)
                        @ '', *(ptr+'' @ str i @ '') = '' @ str (initialValues ! i) @ newline)])
                    [0 ..< arraySize]);
          st = fold (\<lambda>i. print (''numeros['' @ str i @ ''] = '' @ str (initialValues ! i)
                        @ '', *(ptr+'' @ str i @ '') = '' @ str (initialValues ! i) @ newline))
                    [0 ..< arraySize] st;
          steps = steps @ [assignStep 16
                     ''Repositioning ptr to the third element of array (numeros[2])''
                     ptrAddress ''ptr'' (arrayAddress + 2 * intSize) ''int*''];
          st = onMainFrame (updateVariable ''ptr'' (arrayAddress + 2 * intSize)) st;
          st = setMemoryValue ptrAddress (arrayAddress + 2 * intSize) st;
          out3 = newline @ ''ptr agora aponta para numeros[2]'' @ newline;
          steps = steps @ [callStep 17 ''Printf function call with informative message'' out3];
          st = print out3 st;
          out4 = ''*ptr = '' @ str (initialValues ! 2) @ newline;
          steps = steps @ [callStep 18 ''Printf function call showing value pointed by ptr''
                             out4];
          st = print out4 st;
          out5 = ''ptr[-1] = '' @ str (initialValues ! 1) @ '', ptr[1] = ''
                   @ str (initialValues ! 3) @ newline;
          steps = steps @ [callStep 19 ''Printf function call demonstrating pointer indexing''
                             out5];
          st = print out5 st;
          steps = steps @ [returnStep 21]
      in (steps, st))"

definition setHeap :: "nat \<Rightarrow> HeapBlock \<Rightarrow> AppState \<Rightarrow> AppState" where
  "setHeap a b st = st\<lparr>app_heap := (app_heap st)(a \<mapsto> b)\<rparr>"

definition onHeapBlock :: "nat \<Rightarrow> (HeapBlock \<Rightarrow> HeapBlock) \<Rightarrow> AppState \<Rightarrow> AppState" where
  "onHeapBlock a f st = st\<lparr>app_heap := (app_heap st)(a \<mapsto> f (the (app_heap st a)))\<rparr>"

definition generateStepsForDynamicAllocation ::
  "ExecutionStep list \<Rightarrow> AppState \<Rightarrow> ExecutionStep list \<times> AppState" where
  "generateStepsForDynamicAllocation steps st =
     (let currentAddress = baseAddress;
          heapAddress = heapBase;
          st = pushFrame (newStackFrame ''main'' 0) st;
          ptrAddress = currentAddress;
          currentAddress = currentAddress + 8;
          steps = steps @ [declStep 5 ''Declaration of pointer ptr (uninitialized)''
                             ptrAddress ''ptr'' 0 ''int*''];
          st = onMainFrame (addVariable ''ptr'' 0 ptrAddress ''int*'') st;
          st = setMemory ptrAddress (cell 0 ''ptr'' ''int*'') st;
          nAddress = currentAddress;
          currentAddress = currentAddress + 4;
          steps = steps @ [declStep 6 ''Declaration of variable n with value 5''
                             nAddress ''n'' 5 ''int''];
          st = onMainFrame (addVariable ''n'' 5 nAddress ''int'') st;
          st = setMemory nAddress (cell 5 ''n'' ''int'') st;
          allocSize = 5 * 4;
          heapBlockAddress = heapAddress;
          heapAddress = heapAddress + allocSize;
          steps = steps @ [mkStep ''call'' 9
                     ''Malloc function call to allocate 5 integers on heap''
                     (noChanges\<lparr>memory := [(ptrAddress, cell heapBlockAddress ''ptr'' ''int*'')],
                        stack := [(''main'',
                          Update (svar ''ptr'' heapBlockAddress ptrAddress ''int*''))],
                        heap := [(heapBlockAddress,
                          \<lparr>hd_address = heapBlockAddress, hd_size = allocSize,
                           hd_freed = False\<rparr>)]\<rparr>)];
          st = onMainFrame (updateVariable ''ptr'' heapBlockAddress) st;
          st = setMemoryValue ptrAddress heapBlockAddress st;
          st = setHeap heapBlockAddress
                 \<lparr>hb_address = heapBlockAddress, hb_size = allocSize,
                  hb_content = Uninitialized, hb_freed = False\<rparr> st;
          steps = steps @ [mkStep ''conditional'' 11 ''Checking if allocation was successful''
                             noChanges];
          steps = steps @ map (\<lambda>i.
                    mkStep ''assignment'' 16
                      (''Initializing ptr['' @ str i @ ''] with value '' @ str (i * 10))
                      (noChanges\<lparr>memory := [(heapBlockAddress + i * 4,
                         cell (i * 10) (''*(ptr+'' @ str i @ '')'') ''int'')]\<rparr>))
                    [0 ..< 5];
          st = fold (\<lambda>i. setMemory (heapBlockAddress + i * 4)
                             (cell (i * 10) (''*(ptr+'' @ str i @ '')'') ''int''))
                    [0 ..< 5] st;
          heapValues = map (\<lambda>i. (i, i * 10)) [0 ..< 5];
          st = onHeapBlock heapBlockAddress (\<lambda>b. b\<lparr>hb_content := Values heapValues\<rparr>) st;
          steps = steps @ map (\<lambda>i.
                    callStep 21 (''Printf function call showing ptr['' @ str i @ '']'')
                      (''ptr['' @ str i @ ''] = '' @ str (i * 10) @ newline))
                    [0 ..< 5];
          st = fold (\<lambda>i. print (''ptr['' @ str i @ ''] = '' @ str (i * 10) @ newline))
                    [0 ..< 5] st;
          steps = steps @ [mkStep ''call'' 25
                     ''Free function call to release allocated memory''
                     (noChanges\<lparr>heap := [(heapBlockAddress,
                        \<lparr>hd_address = heapBlockAddress, hd_size = allocSize,
                         hd_freed = True\<rparr>)]\<rparr>)];
          st = onHeapBlock heapBlockAddress (\<lambda>b. b\<lparr>hb_freed := True\<rparr>) st;
          steps = steps @ [mkStep ''warning'' 28
                     ''ptr is now a dangling pointer pointing to freed memory'' noChanges];
          steps = steps @ [returnStep 30]
      in (steps, st))"

fun findFunctionCalls :: "ASTNode \<Rightarrow> string \<Rightarrow> ASTNode list" where
  "findFunctionCalls (ASTNode t v cs ex) fname =
     (if t = ''call_expression'' \<and> v = Some fname then [ASTNode t v cs ex] else [])
     @ concat (map (\<lambda>child. findFunctionCalls child fname) cs)"

definition generateStepsBasedOnAST ::
  "ExecutionStep list \<Rightarrow> AppState \<Rightarrow> ExecutionStep list \<times> AppState" where
  "generateStepsBasedOnAST steps st =
     (case (case ast st of
              None \<Rightarrow> None
            | Some root \<Rightarrow>
                find (\<lambda>n. node_type n = ''function_definition'' \<and> node_value n = Some ''main'')
                     (children root)) of
        Some mainNode \<Rightarrow>
          (let st = pushFrame (newStackFrame ''main'' 0) st;
               steps = steps @ [mkStep ''information'' 2
                          ''Found main() function - starting execution'' noChanges];
               printfCalls = findFunctionCalls mainNode ''printf'';
               steps = steps @ map (\<lambda>index.
                         callStep (int index + 3) ''Printf function call''
                           (''Simulated output from printf call'' @ newline))
                         [0 ..< length printfCalls];
               st = fold (\<lambda>c. print (''Simulated output from printf call'' @ newline))
                         printfCalls st;
               steps = steps @ [returnStep (findLastLine st - 1)]
           in (steps, st))
      | None \<Rightarrow>
          (steps @ [mkStep ''error'' 1 ''Could not find main function for execution''
                      noChanges], st))"

text \<open>
  The switch of \<open>generateExecutionSteps\<close>. The class defines the generators for
  \<open>basic\<close>, \<open>arrays\<close> and \<open>dynamic_allocation\<close> and the generic one; the six other
  methods the switch calls are not defined, so calling one raises a TypeError
  (\<open>Inl\<close> its message) before anything is pushed.
\<close>

definition notAFunction :: "string \<Rightarrow> string" where
  "notAFunction m = ''this.'' @ m @ '' is not a function''"

definition generateStepsForCodeType ::
  "string \<Rightarrow> ExecutionStep list \<Rightarrow> AppState \<Rightarrow> string + ExecutionStep list \<times> AppState" where
  "generateStepsForCodeType codeType steps st =
     (if codeType = ''basic'' then Inr (generateStepsForVariablesAndPointers steps st)
      else if codeType = ''arrays'' then Inr (generateStepsForArraysAndPointers steps st)
      else if codeType = ''dynamic_allocation''
        then Inr (generateStepsForDynamicAllocation steps st)
      else if codeType = ''structures'' then Inl (notAFunction ''generateStepsForStructures'')
      else if codeType = ''recursion'' then Inl (notAFunction ''generateStepsForRecursion'')
      else if codeType = ''file_io'' then Inl (notAFunction ''generateStepsForFileHandling'')
      else if codeType = ''switch_case'' then Inl (notAFunction ''generateStepsForSwitchCase'')
      else if codeType = ''preprocessor''
        then Inl (notAFunction ''generateStepsForPreprocessor'')
      else if codeType = ''bitwise'' then Inl (notAFunction ''generateStepsForBitwise'')
      else Inr (generateStepsBasedOnAST steps st))"

text \<open>
  \<open>generateExecutionStepsAs codeType\<close> is the body of \<open>generateExecutionSteps\<close> once
  the classifier has answered \<open>codeType\<close>: the initial step, the switch, the final step,
  and the \<open>catch\<close> block, which logs the message and returns the steps pushed so far.
\<close>

definition generateExecutionStepsAs ::
  "string \<Rightarrow> AppState \<Rightarrow> ExecutionStep list \<times> AppState" where
  "generateExecutionStepsAs codeType st =
     (let steps = [mkStep ''initialization'' 1 ''Program start'' noChanges] in
      case generateStepsForCodeType codeType steps st of
        Inr (steps', st') \<Rightarrow>
          (steps' @ [mkStep ''finalization'' (findLastLine st') ''Program end'' noChanges], st')
      | Inl message \<Rightarrow> (steps, addError message ''error'' st))"

definition generateExecutionSteps :: "AppState \<Rightarrow> ExecutionStep list \<times> AppState" where
  "generateExecutionSteps st = generateExecutionStepsAs (determineCodeType st) st"


subsection \<open>Properties of a trace\<close>

text \<open>
  The stack variables a step records are those of its \<open>add\<close> and \<open>update\<close> entries;
  a memory cell belongs to a named stack variable when it carries such a variable's name.
\<close>

fun stackChangeVar :: "string \<times> StackChange \<Rightarrow> StackVar list" where
  "stackChangeVar (f, Add v) = [v]"
| "stackChangeVar (f, Update v) = [v]"
| "stackChangeVar (f, Remove) = []"

definition stackVars :: "ExecutionStep \<Rightarrow> StackVar list" where
  "stackVars s = concat (map stackChangeVar (stack (changes s)))"

definition stackVarNames :: "ExecutionStep list \<Rightarrow> string list" where
  "stackVarNames steps = map var_name (concat (map stackVars steps))"

definition heapKeysOk :: "ExecutionStep \<Rightarrow> bool" where
  "heapKeysOk s = list_all (\<lambda>(a, d). heapBase \<le> a) (heap (changes s))"

definition stackAddressesOk :: "ExecutionStep \<Rightarrow> bool" where
  "stackAddressesOk s = list_all (\<lambda>v. var_address v < heapBase) (stackVars s)"

definition stackMemoryOk :: "string list \<Rightarrow> ExecutionStep \<Rightarrow> bool" where
  "stackMemoryOk names s =
     list_all (\<lambda>(a, c). cell_name c \<in> set names \<longrightarrow> a < heapBase) (memory (changes s))"

text \<open>
  The heap blocks a trace records, and the partition of the memory cells: a cell lies
  below the heap base or inside a recorded heap block.
\<close>

definition heapBlocks :: "ExecutionStep list \<Rightarrow> (nat \<times> HeapDelta) list" where
  "heapBlocks steps = concat (map (\<lambda>s. heap (changes s)) steps)"

definition memoryPartitionOk :: "(nat \<times> HeapDelta) list \<Rightarrow> ExecutionStep \<Rightarrow> bool" where
  "memoryPartitionOk blocks s =
     list_all (\<lambda>(a, c). a < heapBase
                \<or> list_ex (\<lambda>(b, d). heapBase \<le> b \<and> b \<le> a \<and> a < b + hd_size d) blocks)
              (memory (changes s))"

definition freedAt :: "ExecutionStep \<Rightarrow> nat \<Rightarrow> bool" where
  "freedAt s a = list_ex (\<lambda>(b, d). b = a \<and> hd_freed d) (heap (changes s))"

definition liveAt :: "ExecutionStep \<Rightarrow> nat \<Rightarrow> bool" where
  "liveAt s a = list_ex (\<lambda>(b, d). b = a \<and> \<not> hd_freed d) (heap (changes s))"

fun neverUnfreed :: "nat list \<Rightarrow> ExecutionStep list \<Rightarrow> bool" where
  "neverUnfreed freed [] = True"
| "neverUnfreed freed (s # ss) =
     (list_all (\<lambda>a. \<not> liveAt s a) freed
      \<and> neverUnfreed (freed @ map fst (filter (\<lambda>(b, d). hd_freed d) (heap (changes s)))) ss)"

text \<open>The four properties of a trace that the generators are checked against.\<close>

definition traceOk :: "ExecutionStep list \<Rightarrow> bool" where
  "traceOk xs = (list_all heapKeysOk xs \<and> list_all stackAddressesOk xs
      \<and> list_all (stackMemoryOk (stackVarNames xs)) xs
      \<and> list_all (memoryPartitionOk (heapBlocks xs)) xs \<and> neverUnfreed [] xs)"

subsection \<open>Example runs\<close>

text \<open>
  The state in which \<open>generateExecutionSteps\<close> runs: the source, its tokens and its
  tree, and the simulation state as \<open>resetExecutionState\<close> leaves it. The examples
  are declarations of \<open>int\<close> variables followed by a line comment that carries the
  fingerprint of a code type.
\<close>

definition pipelineState :: "string \<Rightarrow> Token list \<Rightarrow> ASTNode \<Rightarrow> AppState" where
  "pipelineState src toks tree =
     \<lparr>code = src, tokens = toks, ast = Some tree, app_memory = Map.empty,
      app_stack = [], app_heap = Map.empty, consoleOutput = [], errors = []\<rparr>"

definition declX :: ASTNode where
  "declX = ASTNode ''int'' None [ASTNode ''variable'' (Some ''x'') [] NoExtra] NoExtra"

definition declY :: ASTNode where
  "declY = ASTNode ''int'' None [ASTNode ''variable'' (Some ''y'') [] NoExtra] NoExtra"

definition tokensX :: "Token list" where
  "tokensX =
     [tok ''keyword'' ''int'' 1 1, tok ''identifier'' ''x'' 1 5, tok ''punctuation'' '';'' 1 6]"

definition structState :: AppState where
  "structState =
     pipelineState ''int x; // struct s'' tokensX (ASTNode ''program'' None [declX] NoExtra)"

definition basicState :: AppState where
  "basicState =
     pipelineState (''int x;'' @ newline @ ''int y;'')
       (tokensX @ [tok ''keyword'' ''int'' 2 1, tok ''identifier'' ''y'' 2 5,
                   tok ''punctuation'' '';'' 2 6])
       (ASTNode ''program'' None [declX, declY] NoExtra)"

definition mallocStructState :: AppState where
  "mallocStructState =
     pipelineState ''int x; // struct s *p = malloc(4)'' tokensX
       (ASTNode ''program'' None [declX] NoExtra)"

definition mallocState :: AppState where
  "mallocState =
     pipelineState ''int x; // malloc(4)'' tokensX (ASTNode ''program'' None [declX] NoExtra)"

subsection \<open>The wrapping of a trace\<close>




section \<open>Tokenizer (class Lexer)\<close>

definition tokenKeywords :: "string list" where
  "tokenKeywords =
     [''auto'', ''break'', ''case'', ''char'', ''const'', ''continue'', ''default'', ''do'',
      ''double'', ''else'', ''enum'', ''extern'', ''float'', ''for'', ''goto'', ''if'',
      ''inline'', ''int'', ''long'', ''register'', ''restrict'', ''return'', ''short'',
      ''signed'', ''sizeof'', ''static'', ''struct'', ''switch'', ''typedef'', ''union'',
      ''unsigned'', ''void'', ''volatile'', ''while'', ''_Bool'', ''_Complex'', ''_Imaginary'']"

definition stdFunctions :: "string list" where
  "stdFunctions =
     [''printf'', ''scanf'', ''malloc'', ''free'', ''calloc'', ''realloc'', ''strlen'',
      ''strcpy'', ''strcat'', ''strcmp'', ''fopen'', ''fclose'', ''fread'', ''fwrite'',
      ''fprintf'', ''fscanf'', ''fgets'', ''fputs'', ''fseek'', ''ftell'', ''rewind'']"

definition operatorsArithmetic :: "string list" where
  "operatorsArithmetic = [''+'', ''-'', ''*'', ''/'', ''%'', ''++'', ''--'']"

definition operatorsRelational :: "string list" where
  "operatorsRelational = [''=='', ''!='', ''>'', ''<'', ''>='', ''<='']"

definition operatorsLogical :: "string list" where
  "operatorsLogical = [''&&'', ''||'', ''!'']"

definition operatorsBitwise :: "string list" where
  "operatorsBitwise = [''&'', ''|'', ''^'', ''~'', ''<<'', ''>>'']"

definition operatorsAssignment :: "string list" where
  "operatorsAssignment =
     [''='', ''+='', ''-='', ''*='', ''/='', ''%='', ''&='', ''|='', ''^='', ''<<='', ''>>='']"

definition punctuation :: "string list" where
  "punctuation =
     [''{'', ''}'', ''('', '')'', ''['', '']'', '';'', '','', ''.'', ''->'', '':'', ''?'',
      ''<'', ''>'']"

subsection \<open>Character classes and String methods\<close>

text \<open>
  \<open>is_space\<close> is the class \<open>\s\<close> of regular expressions, which is also what
  \<open>trim\<close> removes; \<open>is_word\<close> is \<open>\w\<close>, \<open>is_digit\<close> is \<open>\d\<close>, and
  \<open>lineTerminator\<close> is what \<open>.\<close> does not match.
\<close>

definition is_space :: "char \<Rightarrow> bool" where
  "is_space c =
     (c \<in> set [CHR 0x09, CHR 0x0A, CHR 0x0B, CHR 0x0C, CHR 0x0D, CHR 0x20, CHR 0xA0])"

definition is_digit :: "char \<Rightarrow> bool" where
  "is_digit c = (c \<in> set ''0123456789'')"

definition is_word :: "char \<Rightarrow> bool" where
  "is_word c =
     (c \<in> set ''abcdefghijklmnopqrstuvwxyzABCDEFGHIJKLMNOPQRSTUVWXYZ0123456789_'')"

definition is_hex :: "char \<Rightarrow> bool" where
  "is_hex c = (c \<in> set ''0123456789abcdefABCDEF'')"

definition lineTerminator :: "char \<Rightarrow> bool" where
  "lineTerminator c = (c = CHR 0x0A \<or> c = CHR 0x0D)"

definition trim :: "string \<Rightarrow> string" where
  "trim s = rev (dropWhile is_space (rev (dropWhile is_space s)))"

text \<open>\<open>split('\n')\<close>: the lines of a text, at least one.\<close>

fun splitLines :: "string \<Rightarrow> string list" where
  "splitLines [] = [[]]"
| "splitLines (c # cs) =
     (if c = CHR 0x0A then [] # splitLines cs
      else (case splitLines cs of
              [] \<Rightarrow> [[c]]
            | l # ls \<Rightarrow> (c # l) # ls))"

text \<open>\<open>split(/\s+/)\<close>: the pieces between the runs of whitespace.\<close>

function splitSpaces :: "string \<Rightarrow> string list" where
  "splitSpaces s =
     (if dropWhile (\<lambda>c. \<not> is_space c) s = [] then [takeWhile (\<lambda>c. \<not> is_space c) s]
      else takeWhile (\<lambda>c. \<not> is_space c) s
           # splitSpaces (dropWhile is_space (dropWhile (\<lambda>c. \<not> is_space c) s)))"
  by pat_completeness auto
termination
proof (relation "measure length")
  show "wf (measure length)" by simp
next
  fix s :: string
  assume a: "dropWhile (\<lambda>c. \<not> is_space c) s \<noteq> []"
  then obtain c cs where c: "dropWhile (\<lambda>c. \<not> is_space c) s = c # cs"
    by (cases "dropWhile (\<lambda>c. \<not> is_space c) s") auto
  then have "is_space c" using hd_dropWhile [of "\<lambda>c. \<not> is_space c" s] by auto
  then have "length (dropWhile is_space (c # cs)) \<le> length cs"
    by (simp add: length_dropWhile_le)
  moreover have "length (c # cs) \<le> length s"
    using length_dropWhile_le [of "\<lambda>c. \<not> is_space c" s] c by simp
  ultimately show "(dropWhile is_space (dropWhile (\<lambda>c. \<not> is_space c) s), s) \<in> measure length"
    using c by simp
qed

declare splitSpaces.simps [simp del]

text \<open>
  \<open>indexOf\<close> and \<open>lastIndexOf\<close> answer \<open>-1\<close> when there is no occurrence.
  \<open>substring a b\<close> swaps its bounds when \<open>b < a\<close>.
\<close>

fun indexOfAux :: "string \<Rightarrow> string \<Rightarrow> nat \<Rightarrow> int" where
  "indexOfAux [] sub i = (if sub = [] then int i else - 1)"
| "indexOfAux (c # cs) sub i =
     (if startsWith (c # cs) sub then int i else indexOfAux cs sub (Suc i))"

definition indexOf :: "string \<Rightarrow> string \<Rightarrow> nat \<Rightarrow> int" where
  "indexOf s sub from = indexOfAux (drop from s) sub (min from (length s))"

definition lastIndexOf :: "string \<Rightarrow> string \<Rightarrow> int" where
  "lastIndexOf s sub =
     (case filter (\<lambda>i. startsWith (drop i s) sub) (rev [0 ..< Suc (length s)]) of
        [] \<Rightarrow> - 1
      | i # _ \<Rightarrow> int i)"

definition substring :: "string \<Rightarrow> int \<Rightarrow> int \<Rightarrow> string" where
  "substring s a b =
     (let a' = nat (max 0 a); b' = nat (max 0 b)
      in take (max a' b' - min a' b') (drop (min a' b') s))"

subsection \<open>Positions\<close>

definition newlinePositions :: "string \<Rightarrow> nat list" where
  "newlinePositions src = filter (\<lambda>i. src ! i = CHR 0x0A) [0 ..< length src]"

definition getLineColumnFromPos :: "nat \<Rightarrow> nat list \<Rightarrow> int \<times> int" where
  "getLineColumnFromPos pos nls =
     (let ln = length (takeWhile (\<lambda>p. p < pos) nls);
          lineStartPos = (if ln = 0 then 0 else nls ! (ln - 1) + 1)
      in (int ln + 1, int pos - int lineStartPos + 1))"

definition isWithinDirective :: "nat \<Rightarrow> (nat \<times> nat) list \<Rightarrow> bool" where
  "isWithinDirective pos directivePositions =
     list_ex (\<lambda>(start, end). start \<le> pos \<and> pos < end) directivePositions"

definition findDirectivePosition :: "string \<Rightarrow> nat \<Rightarrow> nat" where
  "findDirectivePosition src lineIndex =
     (let lines = splitLines src;
          position = sum_list (map (\<lambda>l. length l + 1) (take lineIndex lines));
          indent = length (takeWhile is_space (lines ! lineIndex))
      in position + indent)"

subsection \<open>Preprocessor directives\<close>

text \<open>
  A directive is a line whose trimmed text starts with \<open>#\<close>. Its text is not empty, so
  \<open>split\<close> gives a first piece, the command; after \<open>#define\<close> the trimmed rest is
  split into at least one piece, the macro name, which is empty when nothing follows.
\<close>

record Directive =
  dir_text :: string
  dir_line :: nat
  dir_start :: nat

definition findDirectives :: "string \<Rightarrow> Directive list" where
  "findDirectives src =
     concat (map (\<lambda>(i, l).
               if startsWith (trim l) ''#''
               then [\<lparr>dir_text = trim l, dir_line = i + 1,
                      dir_start = findDirectivePosition src i\<rparr>]
               else [])
             (enumerate 0 (splitLines src)))"

definition directiveTokens :: "nat list \<Rightarrow> Directive \<Rightarrow> Token list" where
  "directiveTokens nls d =
     (let text = dir_text d;
          command = hd (splitSpaces text);
          (ln, col) = getLineColumnFromPos (dir_start d) nls
      in tok ''preprocessor'' command ln col
         # (if command = ''#include'' then
              (let rest = trim (drop 8 text);
                   includePos = col + int (length command)
               in if startsWith rest ''<'' \<and> includes_str rest ''>'' then
                    (let fileName = substring rest 1 (indexOf rest ''>'' 0);
                         leftBracketPos = includePos + indexOf text ''<'' 8 - 8;
                         fileNamePos = leftBracketPos + 1;
                         rightBracketPos = fileNamePos + int (length fileName)
                     in [tok ''punctuation'' ''<'' ln leftBracketPos,
                         tok ''identifier'' fileName ln fileNamePos,
                         tok ''punctuation'' ''>'' ln rightBracketPos])
                  else if startsWith rest [CHR 0x22] \<and> includes_str (drop 1 rest) [CHR 0x22] then
                    (let fileName = substring rest 1 (lastIndexOf rest [CHR 0x22]);
                         leftQuotePos = includePos + indexOf text [CHR 0x22] 8 - 8;
                         fileNamePos = leftQuotePos + 1;
                         rightQuotePos = fileNamePos + int (length fileName)
                     in [tok ''punctuation'' [CHR 0x22] ln leftQuotePos,
                         tok ''identifier'' fileName ln fileNamePos,
                         tok ''punctuation'' [CHR 0x22] ln rightQuotePos])
                  else [])
            else if command = ''#define'' then
              (let parts = take 2 (splitSpaces (trim (drop 7 text)));
                   macroName = parts ! 0;
                   macroNamePos = col + indexOf text macroName 7
               in tok ''identifier'' macroName ln macroNamePos
                  # (if length parts > 1
                     then [tok ''literal'' (parts ! 1) ln
                             (macroNamePos + int (length macroName) + 1)]
                     else []))
            else []))"

subsection \<open>The regular expression\<close>

text \<open>
  The expression is an alternation of five groups, tried in order at a position:
  comments, numbers, string and character literals, operators and punctuation, words.
  Each matcher answers the length of its match at the head of the text. Nothing follows
  the groups, so the first alternative that matches is the match.
\<close>

text \<open>The offset of the first \<open>*/\<close>: the lazy \<open>[\s\S]*?\<close> stops there.\<close>

fun findClose :: "string \<Rightarrow> nat option" where
  "findClose [] = None"
| "findClose (c # cs) =
     (if startsWith (c # cs) ''*/'' then Some 0 else map_option Suc (findClose cs))"

definition matchComment :: "string \<Rightarrow> nat option" where
  "matchComment s =
     (if startsWith s ''//''
      then Some (2 + length (takeWhile (\<lambda>c. c \<noteq> CHR 0x0A) (drop 2 s)))
      else if startsWith s ''/*''
      then map_option (\<lambda>k. 2 + k + 2) (findClose (drop 2 s))
      else None)"

text \<open>
  \<open>\d+\.\d+|\d+|0x[0-9a-fA-F]+\<close>. After the greedy digits the first alternative needs
  a dot and a digit; giving digits back cannot help, since a digit would then stand where
  the dot is needed.
\<close>

definition matchNumber :: "string \<Rightarrow> nat option" where
  "matchNumber s =
     (let d = length (takeWhile is_digit s);
          r = drop d s
      in if 0 < d \<and> startsWith r ''.'' \<and> 0 < length (takeWhile is_digit (drop 1 r))
         then Some (d + 1 + length (takeWhile is_digit (drop 1 r)))
         else if 0 < d then Some d
         else if startsWith s ''0x'' \<and> 0 < length (takeWhile is_hex (drop 2 s))
         then Some (2 + length (takeWhile is_hex (drop 2 s)))
         else None)"

text \<open>
  The body of a literal after its opening quote \<open>q\<close>: \<open>(?:\\.|[^q\\])*q\<close>. At each
  place at most one alternative of the star applies, and the star stops only at a quote,
  at a backslash before a line terminator or the end, or at the end; giving iterations
  back reaches no quote, so the match is the scan below.
\<close>

fun stringBody :: "char \<Rightarrow> string \<Rightarrow> nat option" where
  "stringBody q [] = None"
| "stringBody q [c] = (if c = q then Some 1 else None)"
| "stringBody q (c # d # ds) =
     (if c = q then Some 1
      else if c = CHR 0x5C
      then (if lineTerminator d then None else map_option (\<lambda>k. k + 2) (stringBody q ds))
      else map_option Suc (stringBody q (d # ds)))"

definition matchString :: "string \<Rightarrow> nat option" where
  "matchString s =
     (case s of
        [] \<Rightarrow> None
      | c # cs \<Rightarrow>
          if c = CHR 0x22 \<or> c = CHR 0x27 then map_option Suc (stringBody c cs) else None)"

definition operatorAlternatives :: "string list" where
  "operatorAlternatives =
     [''++'', ''--'', ''=='', ''!='', ''<='', ''>='', ''&&'', ''||'', ''<<'', ''>>'',
      ''+='', ''-='', ''*='', ''/='', ''%='', ''&='', ''|='', ''^='', ''<<='', ''>>='', ''->'']"

definition singleOperators :: string where
  "singleOperators = ''+-*/%=<>&|^!~.,;:?[]{}()''"

definition matchOperator :: "string \<Rightarrow> nat option" where
  "matchOperator s =
     (case find (\<lambda>op. startsWith s op) operatorAlternatives of
        Some op \<Rightarrow> Some (length op)
      | None \<Rightarrow>
          (case s of
             [] \<Rightarrow> None
           | c # cs \<Rightarrow> if c \<in> set singleOperators then Some 1 else None))"

definition matchWord :: "string \<Rightarrow> nat option" where
  "matchWord s =
     (if 0 < length (takeWhile is_word s) then Some (length (takeWhile is_word s)) else None)"

text \<open>The group that matches at the head of the text, and the length of the match.\<close>

definition matchAt :: "string \<Rightarrow> (nat \<times> nat) option" where
  "matchAt s =
     (case matchComment s of Some n \<Rightarrow> Some (1, n) | None \<Rightarrow>
      case matchNumber s of Some n \<Rightarrow> Some (2, n) | None \<Rightarrow>
      case matchString s of Some n \<Rightarrow> Some (3, n) | None \<Rightarrow>
      case matchOperator s of Some n \<Rightarrow> Some (4, n) | None \<Rightarrow>
      case matchWord s of Some n \<Rightarrow> Some (5, n) | None \<Rightarrow> None)"

text \<open>
  \<open>regex.exec\<close> from \<open>lastIndex\<close>: the first position at or after it where the
  expression matches. \<open>findMatch s i\<close> searches the text \<open>s\<close> that starts at index \<open>i\<close>.
\<close>

fun findMatch :: "string \<Rightarrow> nat \<Rightarrow> (nat \<times> nat \<times> nat) option" where
  "findMatch [] i = None"
| "findMatch (c # cs) i =
     (case matchAt (c # cs) of
        Some (g, n) \<Rightarrow> Some (i, g, n)
      | None \<Rightarrow> findMatch cs (Suc i))"

definition classify :: "nat \<Rightarrow> string \<Rightarrow> string" where
  "classify g v =
     (if g = 2 then ''literal''
      else if g = 3 then ''literal''
      else if g = 4 then
        (if v \<in> set operatorsArithmetic \<or> v \<in> set operatorsRelational
            \<or> v \<in> set operatorsLogical \<or> v \<in> set operatorsBitwise
            \<or> v \<in> set operatorsAssignment then ''operator''
         else if v \<in> set punctuation then ''punctuation''
         else [])
      else if g = 5 then
        (if v \<in> set tokenKeywords then ''keyword''
         else if v \<in> set stdFunctions then ''function''
         else ''identifier'')
      else [])"

text \<open>
  The loop over the matches, with fuel: \<open>None\<close> when the fuel runs out. A match inside
  a directive, a comment, and a match of no type add no token.
\<close>

fun tokenLoop ::
  "nat \<Rightarrow> string \<Rightarrow> (nat \<times> nat) list \<Rightarrow> nat list \<Rightarrow> nat \<Rightarrow> Token list option" where
  "tokenLoop 0 src dps nls lastIndex = None"
| "tokenLoop (Suc n) src dps nls lastIndex =
     (case findMatch (drop lastIndex src) lastIndex of
        None \<Rightarrow> Some []
      | Some (index, g, len) \<Rightarrow>
          map_option
            (\<lambda>rest.
               (if isWithinDirective index dps then []
                else if g = 1 then []
                else if classify g (take len (drop index src)) = [] then []
                else [tok (classify g (take len (drop index src)))
                          (take len (drop index src))
                          (fst (getLineColumnFromPos index nls))
                          (snd (getLineColumnFromPos index nls))])
               @ rest)
            (tokenLoop n src dps nls (index + len)))"

text \<open>
  \<open>tokenize\<close>: the tokens of the directives, then the tokens of the matches, sorted
  by line and then by column. The sort is stable, as \<open>Array.prototype.sort\<close> is:
  \<open>sort_key\<close> on the pair, under the lexicographic order.
\<close>

definition tokenKey :: "Token \<Rightarrow> int \<times> int" where
  "tokenKey t = (line t, column t)"

definition tokenize :: "nat \<Rightarrow> string \<Rightarrow> Token list option" where
  "tokenize fuel src =
     (let nls = newlinePositions src;
          directives = findDirectives src;
          directivePositions =
            map (\<lambda>d. (dir_start d, dir_start d + length (dir_text d))) directives;
          tokens1 = concat (map (directiveTokens nls) directives)
      in map_option (\<lambda>tokens2. sort_key tokenKey (tokens1 @ tokens2))
           (tokenLoop fuel src directivePositions nls 0))"

subsection \<open>Comments and whitespace, as the specification speaks of them\<close>








subsection \<open>Example source\<close>


section \<open>Parser (class Parser)\<close>

text \<open>
  An exception is a value of \<open>parse_error\<close>; \<open>errorMessage\<close> is the message the
  program builds for it. \<open>NullToken\<close> is the TypeError of reading a field of the
  \<open>null\<close> that \<open>getCurrentToken\<close> returns at the end of the tokens.
\<close>

datatype parse_error =
    NoTokens
  | ExpectedButEnd string
  | ExpectedButFound string "string option" Token
  | UnexpectedGlobal Token
  | UnsupportedControlFlow string
  | UnexpectedInExpression Token
  | NullToken

definition strInt :: "int \<Rightarrow> string" where
  "strInt k = (if k < 0 then ''-'' @ str (nat (- k)) else str (nat k))"

definition quoted :: "string \<Rightarrow> string" where
  "quoted s = [CHR 0x27] @ s @ [CHR 0x27]"

definition found :: "Token \<Rightarrow> string" where
  "found t = token_type t @ '' '' @ quoted (token_value t) @ '' at line '' @ strInt (line t)"

fun errorMessage :: "parse_error \<Rightarrow> string" where
  "errorMessage NoTokens = ''No tokens to parse''"
| "errorMessage (ExpectedButEnd type) =
     ''Expected token of type '' @ type @ '', but reached end of tokens''"
| "errorMessage (ExpectedButFound type v t) =
     ''Expected token of type '' @ type
     @ (if truthy v then '' with value '' @ quoted (the v) else [])
     @ '', but found '' @ found t"
| "errorMessage (UnexpectedGlobal t) = ''Unexpected token in global scope: '' @ found t"
| "errorMessage (UnsupportedControlFlow v) = ''Unsupported control flow structure: '' @ v"
| "errorMessage (UnexpectedInExpression t) =
     ''Unexpected token while parsing expression: '' @ found t"
| "errorMessage NullToken = ''Cannot read properties of null''"

text \<open>
  The parser's state is the index of the current token. A parsing function takes the
  tokens and the index and returns \<open>None\<close> when its fuel runs out (the parameter loop of
  \<open>parseFunctionDefinition\<close> can run forever), \<open>Some (Inl e)\<close> when it throws \<open>e\<close>, and
  \<open>Some (Inr (x, i))\<close> when it returns \<open>x\<close> with the index at \<open>i\<close>.
\<close>

type_synonym 'a presult = "(parse_error + 'a \<times> nat) option"

definition ok :: "'a \<Rightarrow> nat \<Rightarrow> 'a presult" where
  "ok x i = Some (Inr (x, i))"

definition throw :: "parse_error \<Rightarrow> 'a presult" where
  "throw e = Some (Inl e)"

definition bind :: "'a presult \<Rightarrow> ('a \<Rightarrow> nat \<Rightarrow> 'b presult) \<Rightarrow> 'b presult" where
  "bind r f =
     (case r of
        None \<Rightarrow> None
      | Some (Inl e) \<Rightarrow> Some (Inl e)
      | Some (Inr (x, i)) \<Rightarrow> f x i)"

definition getCurrentToken :: "Token list \<Rightarrow> nat \<Rightarrow> Token option" where
  "getCurrentToken toks i = (if i < length toks then Some (toks ! i) else None)"

definition checkType :: "Token list \<Rightarrow> nat \<Rightarrow> string \<Rightarrow> bool" where
  "checkType toks i type =
     (case getCurrentToken toks i of None \<Rightarrow> False | Some t \<Rightarrow> token_type t = type)"

definition checkValue :: "Token list \<Rightarrow> nat \<Rightarrow> string \<Rightarrow> bool" where
  "checkValue toks i v =
     (case getCurrentToken toks i of None \<Rightarrow> False | Some t \<Rightarrow> token_value t = v)"

text \<open>The value of the current token, read after \<open>checkType\<close> has found a token.\<close>

definition currentValue :: "Token list \<Rightarrow> nat \<Rightarrow> string" where
  "currentValue toks i = token_value (toks ! i)"

definition consume :: "Token list \<Rightarrow> nat \<Rightarrow> string \<Rightarrow> string option \<Rightarrow> Token presult" where
  "consume toks i type v =
     (case getCurrentToken toks i of
        None \<Rightarrow> throw (ExpectedButEnd type)
      | Some t \<Rightarrow>
          if token_type t \<noteq> type \<or> (v \<noteq> None \<and> token_value t \<noteq> the v)
          then throw (ExpectedButFound type v t)
          else ok t (i + 1))"

definition tryConsume :: "Token list \<Rightarrow> nat \<Rightarrow> string \<Rightarrow> string option \<Rightarrow> Token option \<times> nat" where
  "tryConsume toks i type v =
     (case getCurrentToken toks i of
        None \<Rightarrow> (None, i)
      | Some t \<Rightarrow>
          if token_type t = type \<and> (v = None \<or> token_value t = the v)
          then (Some t, i + 1) else (None, i))"

definition node :: "string \<Rightarrow> string option \<Rightarrow> ASTNode list \<Rightarrow> ASTNode" where
  "node t v cs = ASTNode t v cs NoExtra"

definition assignmentOperators :: "string list" where
  "assignmentOperators =
     [''='', ''+='', ''-='', ''*='', ''/='', ''%='', ''&='', ''|='', ''^='', ''<<='', ''>>='']"

function (sequential) parseExpression :: "nat \<Rightarrow> Token list \<Rightarrow> nat \<Rightarrow> ASTNode presult"
  and parseAssignment :: "nat \<Rightarrow> Token list \<Rightarrow> nat \<Rightarrow> ASTNode presult"
  and parseLogicalExpression :: "nat \<Rightarrow> Token list \<Rightarrow> nat \<Rightarrow> ASTNode presult"
  and logicalLoop :: "nat \<Rightarrow> Token list \<Rightarrow> ASTNode \<Rightarrow> nat \<Rightarrow> ASTNode presult"
  and parseRelationalExpression :: "nat \<Rightarrow> Token list \<Rightarrow> nat \<Rightarrow> ASTNode presult"
  and relationalLoop :: "nat \<Rightarrow> Token list \<Rightarrow> ASTNode \<Rightarrow> nat \<Rightarrow> ASTNode presult"
  and parseAdditiveExpression :: "nat \<Rightarrow> Token list \<Rightarrow> nat \<Rightarrow> ASTNode presult"
  and additiveLoop :: "nat \<Rightarrow> Token list \<Rightarrow> ASTNode \<Rightarrow> nat \<Rightarrow> ASTNode presult"
  and parseMultiplicativeExpression :: "nat \<Rightarrow> Token list \<Rightarrow> nat \<Rightarrow> ASTNode presult"
  and multiplicativeLoop :: "nat \<Rightarrow> Token list \<Rightarrow> ASTNode \<Rightarrow> nat \<Rightarrow> ASTNode presult"
  and parseUnaryExpression :: "nat \<Rightarrow> Token list \<Rightarrow> nat \<Rightarrow> ASTNode presult"
  and parsePrimaryFactor :: "nat \<Rightarrow> Token list \<Rightarrow> nat \<Rightarrow> ASTNode presult"
  and argumentLoop :: "nat \<Rightarrow> Token list \<Rightarrow> ASTNode list \<Rightarrow> nat \<Rightarrow> ASTNode list presult"
where
  "parseExpression 0 toks i = None"
| "parseExpression (Suc n) toks i = parseAssignment n toks i"
| "parseAssignment 0 toks i = None"
| "parseAssignment (Suc n) toks i =
     bind (parseLogicalExpression n toks i) (\<lambda>left i.
       if checkType toks i ''operator'' \<and> currentValue toks i \<in> set assignmentOperators
       then bind (consume toks i ''operator'' None) (\<lambda>operator i.
              bind (parseAssignment n toks i) (\<lambda>right i.
                ok (node ''assignment_expression'' (Some (token_value operator))
                      [left, right]) i))
       else ok left i)"
| "parseLogicalExpression 0 toks i = None"
| "parseLogicalExpression (Suc n) toks i =
     bind (parseRelationalExpression n toks i) (\<lambda>left i. logicalLoop n toks left i)"
| "logicalLoop 0 toks left i = None"
| "logicalLoop (Suc n) toks left i =
     (if checkType toks i ''operator'' \<and> currentValue toks i \<in> set [''&&'', ''||'']
      then bind (consume toks i ''operator'' None) (\<lambda>operator i.
             bind (parseRelationalExpression n toks i) (\<lambda>right i.
               logicalLoop n toks
                 (node ''logical_expression'' (Some (token_value operator)) [left, right]) i))
      else ok left i)"
| "parseRelationalExpression 0 toks i = None"
| "parseRelationalExpression (Suc n) toks i =
     bind (parseAdditiveExpression n toks i) (\<lambda>left i. relationalLoop n toks left i)"
| "relationalLoop 0 toks left i = None"
| "relationalLoop (Suc n) toks left i =
     (if checkType toks i ''operator''
         \<and> currentValue toks i \<in> set [''=='', ''!='', ''<'', ''>'', ''<='', ''>='']
      then bind (consume toks i ''operator'' None) (\<lambda>operator i.
             bind (parseAdditiveExpression n toks i) (\<lambda>right i.
               relationalLoop n toks
                 (node ''relational_expression'' (Some (token_value operator)) [left, right]) i))
      else ok left i)"
| "parseAdditiveExpression 0 toks i = None"
| "parseAdditiveExpression (Suc n) toks i =
     bind (parseMultiplicativeExpression n toks i) (\<lambda>left i. additiveLoop n toks left i)"
| "additiveLoop 0 toks left i = None"
| "additiveLoop (Suc n) toks left i =
     (if checkType toks i ''operator'' \<and> currentValue toks i \<in> set [''+'', ''-'']
      then bind (consume toks i ''operator'' None) (\<lambda>operator i.
             bind (parseMultiplicativeExpression n toks i) (\<lambda>right i.
               additiveLoop n toks
                 (node ''additive_expression'' (Some (token_value operator)) [left, right]) i))
      else ok left i)"
| "parseMultiplicativeExpression 0 toks i = None"
| "parseMultiplicativeExpression (Suc n) toks i =
     bind (parseUnaryExpression n toks i) (\<lambda>left i. multiplicativeLoop n toks left i)"
| "multiplicativeLoop 0 toks left i = None"
| "multiplicativeLoop (Suc n) toks left i =
     (if checkType toks i ''operator'' \<and> currentValue toks i \<in> set [''*'', ''/'', ''%'']
      then bind (consume toks i ''operator'' None) (\<lambda>operator i.
             bind (parseUnaryExpression n toks i) (\<lambda>right i.
               multiplicativeLoop n toks
                 (node ''multiplicative_expression'' (Some (token_value operator))
                    [left, right]) i))
      else ok left i)"
| "parseUnaryExpression 0 toks i = None"
| "parseUnaryExpression (Suc n) toks i =
     (if checkType toks i ''operator''
         \<and> currentValue toks i \<in> set [''+'', ''-'', ''!'', ''~'', ''++'', ''--'', ''*'', ''&'']
      then bind (consume toks i ''operator'' None) (\<lambda>operator i.
             bind (parseUnaryExpression n toks i) (\<lambda>operand i.
               ok (node ''unary_expression'' (Some (token_value operator)) [operand]) i))
      else parsePrimaryFactor n toks i)"
| "parsePrimaryFactor 0 toks i = None"
| "parsePrimaryFactor (Suc n) toks i =
     (if checkType toks i ''literal''
      then bind (consume toks i ''literal'' None) (\<lambda>literal i.
             ok (node ''literal'' (Some (token_value literal)) []) i)
      else if checkType toks i ''identifier''
      then bind (consume toks i ''identifier'' None) (\<lambda>identifier i.
             if checkValue toks i ''(''
             then bind (consume toks i ''punctuation'' (Some ''('')) (\<lambda>_ i.
                    bind (if \<not> checkValue toks i '')'' then argumentLoop n toks [] i
                          else ok [] i) (\<lambda>arguments i.
                      bind (consume toks i ''punctuation'' (Some '')'')) (\<lambda>_ i.
                        ok (node ''call_expression'' (Some (token_value identifier))
                              arguments) i)))
             else if checkValue toks i ''[''
             then bind (consume toks i ''punctuation'' (Some ''['')) (\<lambda>_ i.
                    bind (parseExpression n toks i) (\<lambda>index i.
                      bind (consume toks i ''punctuation'' (Some '']'')) (\<lambda>_ i.
                        ok (node ''array_access'' (Some (token_value identifier)) [index]) i)))
             else ok (node ''identifier'' (Some (token_value identifier)) []) i)
      else if checkValue toks i ''(''
      then bind (consume toks i ''punctuation'' (Some ''('')) (\<lambda>_ i.
             bind (parseExpression n toks i) (\<lambda>expression i.
               bind (consume toks i ''punctuation'' (Some '')'')) (\<lambda>_ i.
                 ok expression i)))
      else (case getCurrentToken toks i of
              None \<Rightarrow> throw NullToken
            | Some t \<Rightarrow> throw (UnexpectedInExpression t)))"
| "argumentLoop 0 toks arguments i = None"
| "argumentLoop (Suc n) toks arguments i =
     bind (if checkValue toks i '',''
           then bind (consume toks i ''punctuation'' (Some '','')) (\<lambda>_ i. ok () i)
           else ok () i) (\<lambda>_ i.
       bind (parseExpression n toks i) (\<lambda>argument i.
         if checkValue toks i '',''
         then argumentLoop n toks (arguments @ [argument]) i
         else ok (arguments @ [argument]) i))"
  by pat_completeness auto
termination
  by (relation "measure (case_sum
        (case_sum (case_sum fst (case_sum fst fst)) (case_sum fst (case_sum fst fst)))
        (case_sum (case_sum fst (case_sum fst fst))
                  (case_sum (case_sum fst fst) (case_sum fst fst))))") auto

definition parseExpressionStatement :: "nat \<Rightarrow> Token list \<Rightarrow> nat \<Rightarrow> ASTNode presult" where
  "parseExpressionStatement n toks i =
     bind (parseExpression n toks i) (\<lambda>expression i.
       bind (consume toks i ''punctuation'' (Some '';'')) (\<lambda>_ i. ok expression i))"

text \<open>
  \<open>parseVariableDeclaration\<close> creates its node as \<open>variable_declaration\<close> and then
  assigns the declared type to the node's \<open>type\<close> field, so the node ends up with the
  type keyword as its type. \<open>variableLoop\<close> is its do-while loop.
\<close>

fun variableLoop ::
  "nat \<Rightarrow> Token list \<Rightarrow> string \<Rightarrow> bool \<Rightarrow> ASTNode list \<Rightarrow> nat \<Rightarrow> ASTNode presult" where
  "variableLoop 0 toks type firstVar vars i = None"
| "variableLoop (Suc n) toks type firstVar vars i =
     bind (if \<not> firstVar
           then bind (consume toks i ''punctuation'' (Some '','')) (\<lambda>_ i. ok () i)
           else ok () i) (\<lambda>_ i.
       bind (if checkType toks i ''identifier''
             then bind (consume toks i ''identifier'' None) (\<lambda>name i.
                    ok (Some (token_value name), NoExtra) i)
             else if checkValue toks i ''*''
             then bind (consume toks i ''operator'' (Some ''*'')) (\<lambda>_ i.
                    bind (consume toks i ''identifier'' None) (\<lambda>name i.
                      ok (Some (token_value name), PointerExtra) i))
             else ok (None, NoExtra) i) (\<lambda>(v, ex) i.
         bind (if checkValue toks i ''=''
               then bind (consume toks i ''operator'' (Some ''='')) (\<lambda>_ i.
                      bind (parseExpression n toks i) (\<lambda>valueNode i. ok [valueNode] i))
               else ok [] i) (\<lambda>inits i.
           if checkValue toks i '',''
           then variableLoop n toks type False (vars @ [ASTNode ''variable'' v inits ex]) i
           else bind (consume toks i ''punctuation'' (Some '';'')) (\<lambda>_ i.
                  ok (node type None (vars @ [ASTNode ''variable'' v inits ex])) i))))"

definition parseVariableDeclaration ::
  "nat \<Rightarrow> Token list \<Rightarrow> string \<Rightarrow> nat \<Rightarrow> ASTNode presult" where
  "parseVariableDeclaration n toks type i = variableLoop n toks type True [] i"

definition parseReturnStatement :: "nat \<Rightarrow> Token list \<Rightarrow> nat \<Rightarrow> ASTNode presult" where
  "parseReturnStatement n toks i =
     bind (consume toks i ''keyword'' (Some ''return'')) (\<lambda>_ i.
       bind (if \<not> checkValue toks i '';''
             then bind (parseExpression n toks i) (\<lambda>returnValue i. ok [returnValue] i)
             else ok [] i) (\<lambda>values i.
         bind (consume toks i ''punctuation'' (Some '';'')) (\<lambda>_ i.
           ok (node ''return_statement'' None values) i)))"

function (sequential)
      parseCompoundStatement :: "nat \<Rightarrow> Token list \<Rightarrow> nat \<Rightarrow> ASTNode presult"
  and compoundLoop :: "nat \<Rightarrow> Token list \<Rightarrow> ASTNode list \<Rightarrow> nat \<Rightarrow> ASTNode presult"
  and parseControlFlowStatement :: "nat \<Rightarrow> Token list \<Rightarrow> nat \<Rightarrow> ASTNode presult"
  and parseIfStatement :: "nat \<Rightarrow> Token list \<Rightarrow> nat \<Rightarrow> ASTNode presult"
  and parseForStatement :: "nat \<Rightarrow> Token list \<Rightarrow> nat \<Rightarrow> ASTNode presult"
  and parseWhileStatement :: "nat \<Rightarrow> Token list \<Rightarrow> nat \<Rightarrow> ASTNode presult"
where
  "parseCompoundStatement 0 toks i = None"
| "parseCompoundStatement (Suc n) toks i =
     bind (consume toks i ''punctuation'' (Some ''{'')) (\<lambda>_ i. compoundLoop n toks [] i)"
| "compoundLoop 0 toks stmts i = None"
| "compoundLoop (Suc n) toks stmts i =
     (if \<not> checkValue toks i ''}''
      then bind (if checkType toks i ''keyword''
                 then (if currentValue toks i
                            \<in> set [''if'', ''for'', ''while'', ''do'', ''switch'', ''return'']
                       then parseControlFlowStatement n toks i
                       else parseVariableDeclaration n toks (currentValue toks i) i)
                 else if checkType toks i ''identifier''
                 then parseExpressionStatement n toks i
                 else parseExpressionStatement n toks i) (\<lambda>stmt i.
             compoundLoop n toks (stmts @ [stmt]) i)
      else bind (consume toks i ''punctuation'' (Some ''}'')) (\<lambda>_ i.
             ok (node ''compound_statement'' None stmts) i))"
| "parseControlFlowStatement 0 toks i = None"
| "parseControlFlowStatement (Suc n) toks i =
     (case getCurrentToken toks i of
        None \<Rightarrow> throw NullToken
      | Some t \<Rightarrow>
          if token_value t = ''if'' then parseIfStatement n toks i
          else if token_value t = ''for'' then parseForStatement n toks i
          else if token_value t = ''while'' then parseWhileStatement n toks i
          else if token_value t = ''return'' then parseReturnStatement n toks i
          else throw (UnsupportedControlFlow (token_value t)))"
| "parseIfStatement 0 toks i = None"
| "parseIfStatement (Suc n) toks i =
     bind (consume toks i ''keyword'' (Some ''if'')) (\<lambda>_ i.
       bind (consume toks i ''punctuation'' (Some ''('')) (\<lambda>_ i.
         bind (parseExpression n toks i) (\<lambda>condition i.
           bind (consume toks i ''punctuation'' (Some '')'')) (\<lambda>_ i.
             bind (if checkValue toks i ''{'' then parseCompoundStatement n toks i
                   else parseExpressionStatement n toks i) (\<lambda>ifBlock i.
               case tryConsume toks i ''keyword'' (Some ''else'') of
                 (Some t, i) \<Rightarrow>
                   bind (if checkValue toks i ''{'' then parseCompoundStatement n toks i
                         else parseExpressionStatement n toks i) (\<lambda>elseBlock i.
                     ok (node ''if_statement'' None [condition, ifBlock, elseBlock]) i)
               | (None, i) \<Rightarrow> ok (node ''if_statement'' None [condition, ifBlock]) i)))))"
| "parseForStatement 0 toks i = None"
| "parseForStatement (Suc n) toks i =
     bind (consume toks i ''keyword'' (Some ''for'')) (\<lambda>_ i.
       bind (consume toks i ''punctuation'' (Some ''('')) (\<lambda>_ i.
         bind (if \<not> checkValue toks i '';'' then parseExpression n toks i
               else ok (node ''empty'' None []) i) (\<lambda>initialization i.
           bind (consume toks i ''punctuation'' (Some '';'')) (\<lambda>_ i.
             bind (if \<not> checkValue toks i '';'' then parseExpression n toks i
                   else ok (node ''empty'' None []) i) (\<lambda>condition i.
               bind (consume toks i ''punctuation'' (Some '';'')) (\<lambda>_ i.
                 bind (if \<not> checkValue toks i '')'' then parseExpression n toks i
                       else ok (node ''empty'' None []) i) (\<lambda>increment i.
                   bind (consume toks i ''punctuation'' (Some '')'')) (\<lambda>_ i.
                     bind (if checkValue toks i ''{'' then parseCompoundStatement n toks i
                           else parseExpressionStatement n toks i) (\<lambda>body i.
                       ok (node ''for_statement'' None
                             [initialization, condition, increment, body]) i)))))))))"
| "parseWhileStatement 0 toks i = None"
| "parseWhileStatement (Suc n) toks i =
     bind (consume toks i ''keyword'' (Some ''while'')) (\<lambda>_ i.
       bind (consume toks i ''punctuation'' (Some ''('')) (\<lambda>_ i.
         bind (parseExpression n toks i) (\<lambda>condition i.
           bind (consume toks i ''punctuation'' (Some '')'')) (\<lambda>_ i.
             bind (if checkValue toks i ''{'' then parseCompoundStatement n toks i
                   else parseExpressionStatement n toks i) (\<lambda>body i.
               ok (node ''while_statement'' None [condition, body]) i)))))"
  by pat_completeness auto
termination
  by (relation "measure (case_sum
        (case_sum fst (case_sum fst fst)) (case_sum fst (case_sum fst fst)))") auto

text \<open>
  The parameter loop of \<open>parseFunctionDefinition\<close> is a do-while that runs until the
  current token is \<open>)\<close>. A token that is neither a keyword nor \<open>)\<close>, or the end of the
  tokens, leaves the index where it is, and the loop does not end.
\<close>

fun parameterLoop ::
  "nat \<Rightarrow> Token list \<Rightarrow> (string \<times> string) list \<Rightarrow> nat \<Rightarrow> (string \<times> string) list presult" where
  "parameterLoop 0 toks parameters i = None"
| "parameterLoop (Suc n) toks parameters i =
     bind (if checkType toks i ''keyword''
           then bind (consume toks i ''keyword'' None) (\<lambda>paramType i.
                  bind (if checkType toks i ''identifier''
                        then bind (consume toks i ''identifier'' None) (\<lambda>name i.
                               ok (token_value name) i)
                        else ok [] i) (\<lambda>paramName i.
                    bind (if checkValue toks i '',''
                          then bind (consume toks i ''punctuation'' (Some '','')) (\<lambda>_ i.
                                 ok () i)
                          else ok () i) (\<lambda>_ i.
                      ok (parameters @ [(token_value paramType, paramName)]) i)))
           else ok parameters i) (\<lambda>parameters i.
       if \<not> checkValue toks i '')'' then parameterLoop n toks parameters i
       else ok parameters i)"

definition parseFunctionDefinition ::
  "nat \<Rightarrow> Token list \<Rightarrow> string \<Rightarrow> nat \<Rightarrow> ASTNode presult" where
  "parseFunctionDefinition n toks returnType i =
     bind (consume toks i ''identifier'' None) (\<lambda>nameToken i.
       bind (consume toks i ''punctuation'' (Some ''('')) (\<lambda>_ i.
         bind (if \<not> checkValue toks i '')'' then parameterLoop n toks [] i
               else ok [] i) (\<lambda>parameters i.
           bind (consume toks i ''punctuation'' (Some '')'')) (\<lambda>_ i.
             bind (parseCompoundStatement n toks i) (\<lambda>functionBody i.
               ok (ASTNode ''function_definition'' (Some (token_value nameToken))
                     [functionBody] (FunctionExtra returnType parameters)) i)))))"

text \<open>The look-ahead of \<open>parseTypeDeclaration\<close> over the tokens after the type.\<close>

fun lookAhead :: "Token list \<Rightarrow> int \<Rightarrow> bool" where
  "lookAhead [] nestedParentheses = False"
| "lookAhead (t # ts) nestedParentheses =
     (let nested = (if token_value t = ''('' then nestedParentheses + 1
                    else if token_value t = '')'' then nestedParentheses - 1
                    else nestedParentheses)
      in if nested = 0 \<and> token_value t = ''{'' then True
         else if nested = 0 \<and> token_value t = '';'' then False
         else lookAhead ts nested)"

definition parseTypeDeclaration :: "nat \<Rightarrow> Token list \<Rightarrow> nat \<Rightarrow> ASTNode presult" where
  "parseTypeDeclaration n toks i =
     bind (consume toks i ''keyword'' None) (\<lambda>typeToken i.
       if lookAhead (drop i toks) 0
       then parseFunctionDefinition n toks (token_value typeToken) i
       else parseVariableDeclaration n toks (token_value typeToken) i)"

definition parsePreprocessorDirective :: "Token list \<Rightarrow> nat \<Rightarrow> ASTNode presult" where
  "parsePreprocessorDirective toks i =
     bind (consume toks i ''preprocessor'' None) (\<lambda>t i.
       ok (node ''preprocessor_directive'' (Some (token_value t)) []) i)"

fun programLoop :: "nat \<Rightarrow> Token list \<Rightarrow> ASTNode list \<Rightarrow> nat \<Rightarrow> ASTNode presult" where
  "programLoop 0 toks decls i = None"
| "programLoop (Suc n) toks decls i =
     (case getCurrentToken toks i of
        None \<Rightarrow> ok (node ''program'' None decls) i
      | Some t \<Rightarrow>
          if checkType toks i ''preprocessor''
          then bind (parsePreprocessorDirective toks i) (\<lambda>directive i.
                 programLoop n toks (decls @ [directive]) i)
          else if checkType toks i ''keyword''
          then bind (parseTypeDeclaration n toks i) (\<lambda>declaration i.
                 programLoop n toks (decls @ [declaration]) i)
          else throw (UnexpectedGlobal t))"

definition parseProgram :: "nat \<Rightarrow> Token list \<Rightarrow> nat \<Rightarrow> ASTNode presult" where
  "parseProgram n toks i = programLoop n toks [] i"

text \<open>\<open>parse\<close> with fuel \<open>n\<close>: the tree, once the index is dropped.\<close>

definition parse :: "nat \<Rightarrow> Token list \<Rightarrow> (parse_error + ASTNode) option" where
  "parse n toks =
     (if length toks = 0 then Some (Inl NoTokens)
      else map_option (map_sum id fst) (parseProgram n toks 0))"

subsection \<open>Properties of a tree\<close>

text \<open>
  \<open>forOk\<close>: every \<open>for_statement\<close> node of the tree has exactly four children.
  \<open>resP P r\<close>: the result \<open>r\<close>, when it is a returned value, satisfies \<open>P\<close>.
  \<open>exprInv\<close> and \<open>stmtInv\<close>: the functions of the expression level and of the
  statement level return trees that satisfy \<open>forOk\<close>, for one amount of fuel.
  \<open>keywordTokensOk\<close>: every keyword token carries one of the tokenizer's keywords;
  \<open>keywordsOk\<close>: no keyword token is spelled \<open>for_statement\<close>.
  \<open>binaryOperators\<close>: the operators of the four loops of the expression level, each
  with the node type its loop builds.
\<close>

fun forOk :: "ASTNode \<Rightarrow> bool" where
  "forOk (ASTNode t v cs ex) = ((t = ''for_statement'' \<longrightarrow> length cs = 4) \<and> list_all forOk cs)"

definition resP :: "('a \<Rightarrow> bool) \<Rightarrow> 'a presult \<Rightarrow> bool" where
  "resP P r = (case r of Some (Inr (x, i)) \<Rightarrow> P x | _ \<Rightarrow> True)"

definition exprInv :: "nat \<Rightarrow> bool" where
  "exprInv n = ((\<forall>toks i. resP forOk (parseExpression n toks i))
    \<and> (\<forall>toks i. resP forOk (parseAssignment n toks i))
    \<and> (\<forall>toks i. resP forOk (parseLogicalExpression n toks i))
    \<and> (\<forall>toks l i. forOk l \<longrightarrow> resP forOk (logicalLoop n toks l i))
    \<and> (\<forall>toks i. resP forOk (parseRelationalExpression n toks i))
    \<and> (\<forall>toks l i. forOk l \<longrightarrow> resP forOk (relationalLoop n toks l i))
    \<and> (\<forall>toks i. resP forOk (parseAdditiveExpression n toks i))
    \<and> (\<forall>toks l i. forOk l \<longrightarrow> resP forOk (additiveLoop n toks l i))
    \<and> (\<forall>toks i. resP forOk (parseMultiplicativeExpression n toks i))
    \<and> (\<forall>toks l i. forOk l \<longrightarrow> resP forOk (multiplicativeLoop n toks l i))
    \<and> (\<forall>toks i. resP forOk (parseUnaryExpression n toks i))
    \<and> (\<forall>toks i. resP forOk (parsePrimaryFactor n toks i))
    \<and> (\<forall>toks as i. list_all forOk as \<longrightarrow> resP (list_all forOk) (argumentLoop n toks as i)))"


definition keywordsOk :: "Token list \<Rightarrow> bool" where
  "keywordsOk toks = list_all (\<lambda>t. token_type t = ''keyword'' \<longrightarrow> token_value t \<noteq> ''for_statement'') toks"

definition stmtInv :: "nat \<Rightarrow> Token list \<Rightarrow> bool" where
  "stmtInv n toks = ((\<forall>i. resP forOk (parseCompoundStatement n toks i))
    \<and> (\<forall>ss i. list_all forOk ss \<longrightarrow> resP forOk (compoundLoop n toks ss i))
    \<and> (\<forall>i. resP forOk (parseControlFlowStatement n toks i))
    \<and> (\<forall>i. resP forOk (parseIfStatement n toks i))
    \<and> (\<forall>i. resP forOk (parseForStatement n toks i))
    \<and> (\<forall>i. resP forOk (parseWhileStatement n toks i)))"

definition binaryOperators :: "(string \<times> string) list" where
  "binaryOperators =
     [(''&&'', ''logical_expression''), (''||'', ''logical_expression''),
      (''=='', ''relational_expression''), (''!='', ''relational_expression''),
      (''<'', ''relational_expression''), (''>'', ''relational_expression''),
      (''<='', ''relational_expression''), (''>='', ''relational_expression''),
      (''+'', ''additive_expression''), (''-'', ''additive_expression''),
      (''*'', ''multiplicative_expression''), (''/'', ''multiplicative_expression''),
      (''%'', ''multiplicative_expression'')]"

subsection \<open>Example token lists\<close>

text \<open>\<open>int main() { for (;;) x = 1; }\<close> and a list whose keyword token is no C keyword.\<close>

definition forTokens :: "Token list" where
  "forTokens =
     [tok ''keyword'' ''int'' 1 1, tok ''identifier'' ''main'' 1 5,
      tok ''punctuation'' ''('' 1 9, tok ''punctuation'' '')'' 1 10,
      tok ''punctuation'' ''{'' 1 12,
      tok ''keyword'' ''for'' 1 14, tok ''punctuation'' ''('' 1 18,
      tok ''punctuation'' '';'' 1 19, tok ''punctuation'' '';'' 1 20,
      tok ''punctuation'' '')'' 1 21,
      tok ''identifier'' ''x'' 1 23, tok ''operator'' ''='' 1 25, tok ''literal'' ''1'' 1 27,
      tok ''punctuation'' '';'' 1 28,
      tok ''punctuation'' ''}'' 1 30]"

text \<open>\<open>int f(x) {}\<close>: the parameter loop meets an identifier and never moves on.\<close>

definition loopingTokens :: "Token list" where
  "loopingTokens =
     [tok ''keyword'' ''int'' 1 1, tok ''identifier'' ''f'' 1 5,
      tok ''punctuation'' ''('' 1 6, tok ''identifier'' ''x'' 1 7,
      tok ''punctuation'' '')'' 1 8, tok ''punctuation'' ''{'' 1 10,
      tok ''punctuation'' ''}'' 1 11]"




section \<open>Trace generator: lemmas\<close>

lemma startsWith_map: "startsWith s p \<Longrightarrow> startsWith (map f s) (map f p)"
  by (induction s p rule: startsWith.induct) auto

lemma includes_str_map: "includes_str s p \<Longrightarrow> includes_str (map f s) (map f p)"
proof (induction s)
  case Nil then show ?case by simp
next
  case (Cons c cs)
  then show ?case using startsWith_map [of "c # cs" p f] by auto
qed

lemma lower_malloc: "map toLowerChar ''malloc('' = ''malloc(''"
  by (simp add: toLowerChar_def)

lemma includes_lower_malloc:
  "includes_str s ''malloc('' \<Longrightarrow> includes_str (toLowerCase s) ''malloc(''"
  using includes_str_map [of s "''malloc(''" toLowerChar] lower_malloc
  by (simp add: toLowerCase_def)

lemma tokens_upd [simp]:
  "tokens (pushFrame fr st) = tokens st"
  "tokens (onMainFrame f st) = tokens st"
  "tokens (setMemory a c st) = tokens st"
  "tokens (setMemoryValue a v st) = tokens st"
  "tokens (print s st) = tokens st"
  "tokens (setHeap a b st) = tokens st"
  "tokens (onHeapBlock a g st) = tokens st"
  by (simp_all add: pushFrame_def onMainFrame_def setMemory_def setMemoryValue_def print_def
        setHeap_def onHeapBlock_def)

lemma tokens_fold [simp]: "(\<And>x s. tokens (f x s) = tokens s) \<Longrightarrow> tokens (fold f xs st) = tokens st"
  by (induction xs arbitrary: st) auto

lemma gen_basic_tokens: "tokens (snd (generateStepsForVariablesAndPointers steps st)) = tokens st"
  by (simp add: generateStepsForVariablesAndPointers_def Let_def)

lemma gen_basic_fst: "\<exists>xs. fst (generateStepsForVariablesAndPointers steps st) = steps @ xs"
  by (simp add: generateStepsForVariablesAndPointers_def Let_def)

lemma mkStep_sel [simp]:
  "step_type (mkStep t l d c) = t" "step_line (mkStep t l d c) = l" "changes (mkStep t l d c) = c"
  by (simp_all add: mkStep_def)

lemmas step_defs = declStep_def assignStep_def callStep_def returnStep_def noChanges_def
  heapKeysOk_def stackAddressesOk_def stackVars_def stackVarNames_def stackMemoryOk_def
  cell_def svar_def baseAddress_def heapBase_def liveAt_def traceOk_def heapBlocks_def
  memoryPartitionOk_def

lemma gen_basic_ok:
  "\<exists>xs. fst (generateStepsForVariablesAndPointers steps st) = steps @ xs \<and> traceOk xs"
  by (simp add: generateStepsForVariablesAndPointers_def Let_def step_defs)

lemma gen_arrays_ok:
  "\<exists>xs. fst (generateStepsForArraysAndPointers steps st) = steps @ xs \<and> traceOk xs"
  by (simp add: generateStepsForArraysAndPointers_def Let_def step_defs upt_rec)

lemma gen_dyn_ok:
  "\<exists>xs. fst (generateStepsForDynamicAllocation steps st) = steps @ xs \<and> traceOk xs"
  by (simp add: generateStepsForDynamicAllocation_def Let_def step_defs upt_rec)

lemma gen_arrays_tokens: "tokens (snd (generateStepsForArraysAndPointers steps st)) = tokens st"
  by (simp add: generateStepsForArraysAndPointers_def Let_def split_def)

lemma gen_dyn_tokens: "tokens (snd (generateStepsForDynamicAllocation steps st)) = tokens st"
  by (simp add: generateStepsForDynamicAllocation_def Let_def)

lemma gen_ast_tokens: "tokens (snd (generateStepsBasedOnAST steps st)) = tokens st"
  by (simp add: generateStepsBasedOnAST_def Let_def split: option.splits)

lemma errors_upd [simp]:
  "errors (pushFrame fr st) = errors st"
  "errors (onMainFrame f st) = errors st"
  "errors (setMemory a c st) = errors st"
  "errors (setMemoryValue a v st) = errors st"
  "errors (print s st) = errors st"
  "errors (setHeap a b st) = errors st"
  "errors (onHeapBlock a g st) = errors st"
  by (simp_all add: pushFrame_def onMainFrame_def setMemory_def setMemoryValue_def print_def
        setHeap_def onHeapBlock_def)

lemma errors_fold [simp]: "(\<And>x s. errors (f x s) = errors s) \<Longrightarrow> errors (fold f xs st) = errors st"
  by (induction xs arbitrary: st) auto

lemma gen_errors:
  "errors (snd (generateStepsForVariablesAndPointers steps st)) = errors st"
  "errors (snd (generateStepsForArraysAndPointers steps st)) = errors st"
  "errors (snd (generateStepsForDynamicAllocation steps st)) = errors st"
  "errors (snd (generateStepsBasedOnAST steps st)) = errors st"
  by (simp_all add: generateStepsForVariablesAndPointers_def generateStepsForArraysAndPointers_def
      generateStepsForDynamicAllocation_def generateStepsBasedOnAST_def Let_def split_def
      split: option.splits)

lemma neverUnfreed_quiet:
  "\<forall>s \<in> set ss. heap (changes s) = [] \<Longrightarrow> neverUnfreed freed ss"
  by (induction ss arbitrary: freed) (auto simp: liveAt_def list_all_iff)

lemma neverUnfreed_append_quiet:
  "neverUnfreed freed xs \<Longrightarrow> \<forall>s \<in> set ys. heap (changes s) = [] \<Longrightarrow> neverUnfreed freed (xs @ ys)"
  by (induction xs arbitrary: freed) (auto simp: neverUnfreed_quiet)

lemma quiet_traceOk:
  assumes "\<forall>s \<in> set xs. heap (changes s) = [] \<and> memory (changes s) = []
              \<and> (stack (changes s) = [] \<or> stack (changes s) = [(''main'', Remove)])"
  shows "traceOk xs"
proof -
  have "\<forall>s \<in> set xs. stackVars s = []" using assms by (auto simp: stackVars_def)
  then show ?thesis using assms
    by (auto simp: traceOk_def list_all_iff heapKeysOk_def stackAddressesOk_def
        stackMemoryOk_def memoryPartitionOk_def neverUnfreed_quiet)
qed

lemma gen_ast_ok:
  "\<exists>xs. fst (generateStepsBasedOnAST steps st) = steps @ xs \<and> traceOk xs"
proof (cases "case ast st of None \<Rightarrow> None
      | Some root \<Rightarrow> find (\<lambda>n. node_type n = ''function_definition'' \<and> node_value n = Some ''main'') (children root)")
  case None
  then have "fst (generateStepsBasedOnAST steps st)
      = steps @ [mkStep ''error'' 1 ''Could not find main function for execution'' noChanges]"
    by (simp add: generateStepsBasedOnAST_def)
  moreover have "traceOk [mkStep ''error'' 1 ''Could not find main function for execution'' noChanges]"
    by (rule quiet_traceOk) (simp add: noChanges_def)
  ultimately show ?thesis by blast
next
  case (Some mainNode)
  define xs where "xs = mkStep ''information'' 2 ''Found main() function - starting execution'' noChanges
     # map (\<lambda>index. callStep (int index + 3) ''Printf function call''
                           (''Simulated output from printf call'' @ newline))
                         [0 ..< length (findFunctionCalls mainNode ''printf'')]
     @ [returnStep (findLastLine st - 1)]"
  have "fst (generateStepsBasedOnAST steps st) = steps @ xs"
    using Some by (simp add: generateStepsBasedOnAST_def Let_def xs_def findLastLine_def)
  moreover have "traceOk xs"
    by (rule quiet_traceOk) (auto simp: xs_def callStep_def returnStep_def noChanges_def)
  ultimately show ?thesis by blast
qed

lemma traceOk_wrap:
  assumes "traceOk xs" "changes a = noChanges" "changes b = noChanges"
  shows "traceOk (a # xs @ [b])"
proof -
  have n: "stackVars a = []" "stackVars b = []" using assms by (simp_all add: stackVars_def noChanges_def)
  then have names: "stackVarNames (a # xs @ [b]) = stackVarNames xs"
    by (simp add: stackVarNames_def)
  have h: "heap (changes a) = []" "heap (changes b) = []" "memory (changes a) = []" "memory (changes b) = []"
    using assms by (simp_all add: noChanges_def)
  have blocks: "heapBlocks (a # xs @ [b]) = heapBlocks xs"
    using h by (simp add: heapBlocks_def)
  have "neverUnfreed [] (xs @ [b])" using assms h by (simp add: traceOk_def neverUnfreed_append_quiet)
  then have "neverUnfreed [] (a # xs @ [b])" using h by simp
  then show ?thesis using assms(1) h n unfolding traceOk_def names blocks
    by (simp add: heapKeysOk_def stackAddressesOk_def stackMemoryOk_def memoryPartitionOk_def)
qed

lemma code_type_cases:
  "(\<exists>m. generateStepsForCodeType codeType steps st = Inl m \<and>
      codeType \<in> {''structures'', ''recursion'', ''file_io'', ''switch_case'', ''preprocessor'', ''bitwise''})
   \<or> (codeType \<notin> {''structures'', ''recursion'', ''file_io'', ''switch_case'', ''preprocessor'', ''bitwise''} \<and>
      (generateStepsForCodeType codeType steps st = Inr (generateStepsForVariablesAndPointers steps st)
     \<or> generateStepsForCodeType codeType steps st = Inr (generateStepsForArraysAndPointers steps st)
     \<or> generateStepsForCodeType codeType steps st = Inr (generateStepsForDynamicAllocation steps st)
     \<or> generateStepsForCodeType codeType steps st = Inr (generateStepsBasedOnAST steps st)))"
  by (simp add: generateStepsForCodeType_def)

lemma code_type_Inr:
  assumes "generateStepsForCodeType codeType steps st = Inr (steps', st')"
  shows "(\<exists>xs. steps' = steps @ xs \<and> traceOk xs) \<and> tokens st' = tokens st \<and> errors st' = errors st"
proof -
  have "(steps', st') = generateStepsForVariablesAndPointers steps st
      \<or> (steps', st') = generateStepsForArraysAndPointers steps st
      \<or> (steps', st') = generateStepsForDynamicAllocation steps st
      \<or> (steps', st') = generateStepsBasedOnAST steps st"
    using code_type_cases [of codeType steps st] assms by auto
  then show ?thesis
  proof (elim disjE)
    assume a: "(steps', st') = generateStepsForVariablesAndPointers steps st"
    show ?thesis using gen_basic_ok [of steps st] gen_basic_tokens [of steps st] gen_errors(1) [of steps st]
      unfolding a [symmetric] by simp
  next
    assume a: "(steps', st') = generateStepsForArraysAndPointers steps st"
    show ?thesis using gen_arrays_ok [of steps st] gen_arrays_tokens [of steps st] gen_errors(2) [of steps st]
      unfolding a [symmetric] by simp
  next
    assume a: "(steps', st') = generateStepsForDynamicAllocation steps st"
    show ?thesis using gen_dyn_ok [of steps st] gen_dyn_tokens [of steps st] gen_errors(3) [of steps st]
      unfolding a [symmetric] by simp
  next
    assume a: "(steps', st') = generateStepsBasedOnAST steps st"
    show ?thesis using gen_ast_ok [of steps st] gen_ast_tokens [of steps st] gen_errors(4) [of steps st]
      unfolding a [symmetric] by simp
  qed
qed

lemma As_traceOk: "traceOk (fst (generateExecutionStepsAs codeType st))"
proof (cases "generateStepsForCodeType codeType [mkStep ''initialization'' 1 ''Program start'' noChanges] st")
  case (Inl m)
  have "traceOk [mkStep ''initialization'' 1 ''Program start'' noChanges]"
    by (rule quiet_traceOk) (simp add: noChanges_def)
  then show ?thesis using Inl
    by (simp add: generateExecutionStepsAs_def Let_def)
next
  case (Inr r)
  obtain steps' st' where r: "r = (steps', st')" by (cases r)
  obtain xs where xs: "steps' = mkStep ''initialization'' 1 ''Program start'' noChanges # xs" "traceOk xs"
    using code_type_Inr [OF Inr [unfolded r]] by auto
  have "traceOk (mkStep ''initialization'' 1 ''Program start'' noChanges # xs
      @ [mkStep ''finalization'' (findLastLine st') ''Program end'' noChanges])"
    by (rule traceOk_wrap [OF xs(2)]) simp_all
  then show ?thesis using Inr r xs
    by (simp add: generateExecutionStepsAs_def Let_def)
qed






lemma malloc_type: "determineCodeType mallocState = ''dynamic_allocation''"
  by code_simp

lemma malloc_steps_3:
  "fst (generateExecutionSteps mallocState) ! 3 =
     mkStep ''call'' 9 ''Malloc function call to allocate 5 integers on heap''
       \<lparr>memory = [(0x1000, cell 0x8000 ''ptr'' ''int*'')],
        stack = [(''main'', Update (svar ''ptr'' 0x8000 0x1000 ''int*''))],
        heap = [(0x8000, \<lparr>hd_address = 0x8000, hd_size = 20, hd_freed = False\<rparr>)],
        saida = None\<rparr>"
  by (simp add: generateExecutionSteps_def malloc_type generateExecutionStepsAs_def
      generateStepsForCodeType_def generateStepsForDynamicAllocation_def Let_def
      declStep_def noChanges_def baseAddress_def heapBase_def)

lemma malloc_length: "length (fst (generateExecutionSteps mallocState)) = 19"
  by (simp add: generateExecutionSteps_def malloc_type generateExecutionStepsAs_def
      generateStepsForCodeType_def generateStepsForDynamicAllocation_def Let_def)

lemma neverUnfreed_sound:
  "neverUnfreed freed steps \<Longrightarrow> j < length steps \<Longrightarrow>
     a \<in> set freed \<or> (\<exists>i<j. freedAt (steps ! i) a) \<Longrightarrow> \<not> liveAt (steps ! j) a"
proof (induction steps arbitrary: freed j)
  case Nil then show ?case by simp
next
  case (Cons s ss)
  show ?case
  proof (cases j)
    case 0
    then show ?thesis using Cons.prems by (auto simp: list_all_iff)
  next
    case (Suc k)
    let ?freed' = "freed @ map fst (filter (\<lambda>(b, d). hd_freed d) (heap (changes s)))"
    have nu: "neverUnfreed ?freed' ss" and k: "k < length ss" using Cons.prems Suc by auto
    have "a \<in> set ?freed' \<or> (\<exists>i<k. freedAt (ss ! i) a)"
    proof -
      from Cons.prems(3) show ?thesis
      proof
        assume "a \<in> set freed" then show ?thesis by simp
      next
        assume "\<exists>i<j. freedAt ((s # ss) ! i) a"
        then obtain i where i: "i < j" "freedAt ((s # ss) ! i) a" by blast
        show ?thesis
        proof (cases i)
          case 0
          then have "freedAt s a" using i by simp
          then have "a \<in> set (map fst (filter (\<lambda>(b, d). hd_freed d) (heap (changes s))))"
            by (force simp: freedAt_def list_ex_iff)
          then show ?thesis by simp
        next
          case (Suc i')
          then show ?thesis using i \<open>j = Suc k\<close> by auto
        qed
      qed
    qed
    from Cons.IH [OF nu k this] show ?thesis using Suc by simp
  qed
qed

lemma malloc_steps_15:
  "fst (generateExecutionSteps mallocState) ! 15 =
     mkStep ''call'' 25 ''Free function call to release allocated memory''
       \<lparr>memory = [], stack = [],
        heap = [(0x8000, \<lparr>hd_address = 0x8000, hd_size = 20, hd_freed = True\<rparr>)],
        saida = None\<rparr>"
  by (simp add: generateExecutionSteps_def malloc_type generateExecutionStepsAs_def
      generateStepsForCodeType_def generateStepsForDynamicAllocation_def Let_def
      declStep_def noChanges_def baseAddress_def heapBase_def upt_rec nth_append)

lemma malloc_steps_5:
  "map fst (memory (changes (fst (generateExecutionSteps mallocState) ! 5))) = [0x8000]"
  by (simp add: generateExecutionSteps_def malloc_type generateExecutionStepsAs_def
      generateStepsForCodeType_def generateStepsForDynamicAllocation_def Let_def
      declStep_def noChanges_def baseAddress_def heapBase_def upt_rec nth_append)

section \<open>Parser: lemmas\<close>

lemma resP_simps [simp]:
  "resP P None" "resP P (throw e)" "resP P (ok x i) = P x"
  by (simp_all add: resP_def throw_def ok_def)

lemma resP_bind:
  assumes "resP P r" and "\<And>x i. P x \<Longrightarrow> resP Q (f x i)"
  shows "resP Q (bind r f)"
proof (cases r)
  case None then show ?thesis by (simp add: bind_def resP_def)
next
  case (Some a)
  show ?thesis
  proof (cases a)
    case (Inl e) then show ?thesis using Some by (simp add: bind_def resP_def)
  next
    case (Inr b)
    obtain x i where "b = (x, i)" by (cases b)
    then show ?thesis using Some Inr assms(1) assms(2) [of x i] by (simp add: bind_def resP_def)
  qed
qed

lemma resP_True: "resP (\<lambda>x. True) r"
  by (simp add: resP_def split: option.splits sum.splits prod.splits)

lemma bind_token [intro!]:
  "(\<And>x i. resP Q (f x i)) \<Longrightarrow> resP Q (bind (r :: Token presult) f)"
  by (rule resP_bind [OF resP_True])

lemma bind_unit [intro!]:
  "(\<And>x i. resP Q (f x i)) \<Longrightarrow> resP Q (bind (r :: unit presult) f)"
  by (rule resP_bind [OF resP_True])

lemma bind_node [intro!]:
  "resP forOk r \<Longrightarrow> (\<And>x i. forOk x \<Longrightarrow> resP Q (f x i)) \<Longrightarrow> resP Q (bind r f)"
  by (rule resP_bind)

lemma bind_nodes [intro!]:
  "resP (list_all forOk) r \<Longrightarrow> (\<And>x i. list_all forOk x \<Longrightarrow> resP Q (f x i)) \<Longrightarrow> resP Q (bind r f)"
  by (rule resP_bind)

lemma forOk_node [simp]:
  "forOk (node t v cs) = ((t = ''for_statement'' \<longrightarrow> length cs = 4) \<and> list_all forOk cs)"
  by (simp add: node_def)

lemma exprInv_0: "exprInv 0"
  by (simp add: exprInv_def)

lemma exprInv_Suc: assumes "exprInv n" shows "exprInv (Suc n)"
proof -
  note ih = assms [unfolded exprInv_def]
  have 1: "resP forOk (parseExpression (Suc n) toks i)" for toks i using ih by simp
  have 2: "resP forOk (parseAssignment (Suc n) toks i)" for toks i using ih by auto
  have 3: "resP forOk (parseLogicalExpression (Suc n) toks i)" for toks i using ih by auto
  have 4: "forOk l \<Longrightarrow> resP forOk (logicalLoop (Suc n) toks l i)" for toks l i using ih by auto
  have 5: "resP forOk (parseRelationalExpression (Suc n) toks i)" for toks i using ih by auto
  have 6: "forOk l \<Longrightarrow> resP forOk (relationalLoop (Suc n) toks l i)" for toks l i using ih by auto
  have 7: "resP forOk (parseAdditiveExpression (Suc n) toks i)" for toks i using ih by auto
  have 8: "forOk l \<Longrightarrow> resP forOk (additiveLoop (Suc n) toks l i)" for toks l i using ih by auto
  have 9: "resP forOk (parseMultiplicativeExpression (Suc n) toks i)" for toks i using ih by auto
  have 10: "forOk l \<Longrightarrow> resP forOk (multiplicativeLoop (Suc n) toks l i)" for toks l i using ih by auto
  have 11: "resP forOk (parseUnaryExpression (Suc n) toks i)" for toks i using ih by auto
  have 12: "resP forOk (parsePrimaryFactor (Suc n) toks i)" for toks i
    using ih by (auto split: option.splits)
  have 13: "list_all forOk as \<Longrightarrow> resP (list_all forOk) (argumentLoop (Suc n) toks as i)" for toks as i
    using ih by auto
  show ?thesis unfolding exprInv_def
    by (intro conjI allI impI 1 2 3 4 5 6 7 8 9 10 11 12 13)
qed

lemma exprInv: "exprInv n"
  by (induction n) (simp_all add: exprInv_0 exprInv_Suc)

lemma bind_var [intro!]:
  "(\<And>x i. resP Q (f x i)) \<Longrightarrow> resP Q (bind (r :: (string option \<times> node_extra) presult) f)"
  by (rule resP_bind [OF resP_True])

lemma bind_string [intro!]:
  "(\<And>x i. resP Q (f x i)) \<Longrightarrow> resP Q (bind (r :: string presult) f)"
  by (rule resP_bind [OF resP_True])

lemma bind_params [intro!]:
  "(\<And>x i. resP Q (f x i)) \<Longrightarrow> resP Q (bind (r :: (string \<times> string) list presult) f)"
  by (rule resP_bind [OF resP_True])

lemmas exprOk = exprInv [unfolded exprInv_def]

lemma parseExpression_ok [simp]: "resP forOk (parseExpression n toks i)"
  using exprOk [of n] by simp

lemma parseExpressionStatement_ok [simp]: "resP forOk (parseExpressionStatement n toks i)"
  by (auto simp: parseExpressionStatement_def)

lemma parseReturnStatement_ok [simp]: "resP forOk (parseReturnStatement n toks i)"
  by (auto simp: parseReturnStatement_def)

lemma variableLoop_ok:
  "type \<noteq> ''for_statement'' \<Longrightarrow> list_all forOk vars \<Longrightarrow>
     resP forOk (variableLoop n toks type firstVar vars i)"
proof (induction n arbitrary: firstVar vars i)
  case 0 then show ?case by simp
next
  case (Suc n)
  show ?case using Suc.prems
    by (auto simp: Suc.IH split: prod.splits)
qed

lemma parseVariableDeclaration_ok:
  "type \<noteq> ''for_statement'' \<Longrightarrow> resP forOk (parseVariableDeclaration n toks type i)"
  by (simp add: parseVariableDeclaration_def variableLoop_ok)

lemma keyword_current:
  "keywordsOk toks \<Longrightarrow> checkType toks i ''keyword'' \<Longrightarrow> currentValue toks i \<noteq> ''for_statement''"
  by (auto simp: keywordsOk_def checkType_def getCurrentToken_def currentValue_def list_all_iff
      split: if_splits)

lemma stmtInv_Suc: assumes "stmtInv n toks" "keywordsOk toks" shows "stmtInv (Suc n) toks"
proof -
  note ih = assms(1) [unfolded stmtInv_def]
  have 1: "resP forOk (parseCompoundStatement (Suc n) toks i)" for i using ih by auto
  have 2: "list_all forOk ss \<Longrightarrow> resP forOk (compoundLoop (Suc n) toks ss i)" for ss i
    using ih keyword_current [OF assms(2)] by (auto simp: parseVariableDeclaration_ok)
  have 3: "resP forOk (parseControlFlowStatement (Suc n) toks i)" for i
    using ih by (auto split: option.splits)
  have 4: "resP forOk (parseIfStatement (Suc n) toks i)" for i
    using ih by (auto split: option.splits prod.splits)
  have 5: "resP forOk (parseForStatement (Suc n) toks i)" for i using ih by auto
  have 6: "resP forOk (parseWhileStatement (Suc n) toks i)" for i using ih by auto
  show ?thesis unfolding stmtInv_def by (intro conjI allI impI 1 2 3 4 5 6)
qed

lemma stmtInv: "keywordsOk toks \<Longrightarrow> stmtInv n toks"
proof (induction n)
  case 0 then show ?case by (simp add: stmtInv_def)
next
  case (Suc n) then show ?case by (simp add: stmtInv_Suc)
qed











lemma fuel12: "12 \<le> n \<Longrightarrow> \<exists>m. n = Suc (Suc (Suc (Suc (Suc (Suc (Suc (Suc (Suc (Suc (Suc (Suc m)))))))))))"
  by presburger

lemmas parser_eval = tok_def checkType_def checkValue_def getCurrentToken_def currentValue_def
  consume_def bind_def ok_def throw_def node_def assignmentOperators_def

lemma assign_right:
  assumes "12 \<le> n"
  shows "parseExpression n [tok ''identifier'' a l1 c1, tok ''operator'' ''='' l2 c2,
            tok ''identifier'' b l3 c3, tok ''operator'' ''='' l4 c4, tok ''identifier'' c l5 c5] 0
     = Some (Inr (node ''assignment_expression'' (Some ''='')
          [node ''identifier'' (Some a) [],
           node ''assignment_expression'' (Some ''='')
             [node ''identifier'' (Some b) [], node ''identifier'' (Some c) []]], 5))"
proof -
  obtain m where "n = Suc (Suc (Suc (Suc (Suc (Suc (Suc (Suc (Suc (Suc (Suc (Suc m)))))))))))"
    using fuel12 [OF assms] by blast
  then show ?thesis by (simp add: parser_eval)
qed

lemma binary_left:
  assumes "(op, kind) \<in> set binaryOperators" "12 \<le> n"
  shows "parseExpression n [tok ''identifier'' a l1 c1, tok ''operator'' op l2 c2,
            tok ''identifier'' b l3 c3, tok ''operator'' op l4 c4, tok ''identifier'' c l5 c5] 0
     = Some (Inr (node kind (Some op)
          [node kind (Some op) [node ''identifier'' (Some a) [], node ''identifier'' (Some b) []],
           node ''identifier'' (Some c) []], 5))"
proof -
  obtain m where m: "n = Suc (Suc (Suc (Suc (Suc (Suc (Suc (Suc (Suc (Suc (Suc (Suc m)))))))))))"
    using fuel12 [OF assms(2)] by blast
  from assms(1) have "(op = ''&&'' \<and> kind = ''logical_expression'')
      \<or> (op = ''||'' \<and> kind = ''logical_expression'')
      \<or> (op = ''=='' \<and> kind = ''relational_expression'')
      \<or> (op = ''!='' \<and> kind = ''relational_expression'')
      \<or> (op = ''<'' \<and> kind = ''relational_expression'')
      \<or> (op = ''>'' \<and> kind = ''relational_expression'')
      \<or> (op = ''<='' \<and> kind = ''relational_expression'')
      \<or> (op = ''>='' \<and> kind = ''relational_expression'')
      \<or> (op = ''+'' \<and> kind = ''additive_expression'')
      \<or> (op = ''-'' \<and> kind = ''additive_expression'')
      \<or> (op = ''*'' \<and> kind = ''multiplicative_expression'')
      \<or> (op = ''/'' \<and> kind = ''multiplicative_expression'')
      \<or> (op = ''%'' \<and> kind = ''multiplicative_expression'')"
    by (simp add: binaryOperators_def)
  then show ?thesis unfolding m
    by (elim disjE conjE) (simp_all add: parser_eval)
qed


text \<open>
  The fuel is needed: on \<open>int f(x) {}\<close>, which the tokenizer returns for that text,
  \<open>parse\<close> returns with no amount of fuel.
\<close>

lemma parameterLoop_stuck:
  "parameterLoop n loopingTokens ps 3 = None"
  by (induction n arbitrary: ps) (simp_all add: loopingTokens_def parser_eval)

lemma looping_facts:
  "consume loopingTokens 0 ''keyword'' None = ok (tok ''keyword'' ''int'' 1 1) (Suc 0)"
  "lookAhead (drop (Suc 0) loopingTokens) 0"
  "consume loopingTokens (Suc 0) ''identifier'' None = ok (tok ''identifier'' ''f'' 1 5) 2"
  "consume loopingTokens 2 ''punctuation'' (Some ''('') = ok (tok ''punctuation'' ''('' 1 6) 3"
  "\<not> checkValue loopingTokens 3 '')''"
  "getCurrentToken loopingTokens 0 = Some (tok ''keyword'' ''int'' 1 1)"
  "checkType loopingTokens 0 ''keyword''" "\<not> checkType loopingTokens 0 ''preprocessor''"
  "length loopingTokens \<noteq> 0"
  by (simp_all add: loopingTokens_def consume_def getCurrentToken_def ok_def tok_def
      checkValue_def checkType_def)

lemma parse_may_not_return: "parse n loopingTokens = None"
proof (cases n)
  case 0 then show ?thesis using looping_facts(9) by (simp add: parse_def parseProgram_def)
next
  case (Suc m)
  have "parseTypeDeclaration m loopingTokens 0 = None"
    unfolding parseTypeDeclaration_def parseFunctionDefinition_def
    by (simp add: looping_facts parameterLoop_stuck bind_def ok_def)
  then show ?thesis using Suc looping_facts(6,7,8,9)
    by (simp add: parse_def parseProgram_def bind_def)
qed

lemma loopingTokens_run: "tokenize 20 ''int f(x) {}'' = Some loopingTokens"
  by code_simp

section \<open>Tokenizer: lemmas\<close>




lemma startsWith_Cons: "startsWith (c # cs) (p # ps) = (c = p \<and> startsWith cs ps)"
  by simp

lemma find_operator:
  "find (\<lambda>op. startsWith (c # cs) op) operatorAlternatives = Some op \<Longrightarrow>
     c \<in> set singleOperators \<and> 0 < length op \<and> op \<in> set operatorAlternatives"
  by (auto simp: operatorAlternatives_def singleOperators_def split: if_splits)

lemma matchComment_pos: "matchComment s = Some n \<Longrightarrow> 0 < n"
  by (auto simp: matchComment_def split: if_splits)

lemma matchNumber_pos: "matchNumber s = Some n \<Longrightarrow> 0 < n"
  by (auto simp: matchNumber_def Let_def split: if_splits)

lemma matchString_pos: "matchString s = Some n \<Longrightarrow> 0 < n"
  by (auto simp: matchString_def split: list.splits if_splits)

lemma matchOperator_pos: "matchOperator s = Some n \<Longrightarrow> 0 < n"
proof (cases s)
  case Nil then show "matchOperator s = Some n \<Longrightarrow> 0 < n"
    by (simp add: matchOperator_def operatorAlternatives_def)
next
  case (Cons c cs)
  assume "matchOperator s = Some n"
  then show "0 < n" using Cons find_operator [of c cs]
    by (auto simp: matchOperator_def split: option.splits if_splits)
qed

lemma matchWord_pos: "matchWord s = Some n \<Longrightarrow> 0 < n"
  by (auto simp: matchWord_def split: if_splits)

lemma matchAt_pos: "matchAt s = Some (g, n) \<Longrightarrow> 0 < n"
  by (auto simp: matchAt_def split: option.splits
      dest: matchComment_pos matchNumber_pos matchString_pos matchOperator_pos matchWord_pos)

lemma findMatch_bounds: "findMatch s i = Some (idx, g, n) \<Longrightarrow> i \<le> idx \<and> 0 < n \<and> s \<noteq> []"
proof (induction s arbitrary: i)
  case Nil then show ?case by simp
next
  case (Cons c cs)
  show ?case
  proof (cases "matchAt (c # cs)")
    case None
    then have "findMatch cs (Suc i) = Some (idx, g, n)" using Cons.prems by simp
    from Cons.IH [OF this] show ?thesis by simp
  next
    case (Some a)
    then show ?thesis using Cons.prems matchAt_pos [of "c # cs" g n] by (cases a) auto
  qed
qed

lemma tokenLoop_total:
  "length src - lastIndex < fuel \<Longrightarrow> \<exists>ts. tokenLoop fuel src dps nls lastIndex = Some ts"
proof (induction fuel arbitrary: lastIndex)
  case 0 then show ?case by simp
next
  case (Suc n)
  show ?case
  proof (cases "findMatch (drop lastIndex src) lastIndex")
    case None then show ?thesis by simp
  next
    case (Some a)
    obtain idx g len where a: "a = (idx, g, len)" by (cases a)
    have b: "lastIndex \<le> idx" "0 < len" "drop lastIndex src \<noteq> []"
      using findMatch_bounds [OF Some [unfolded a]] by auto
    then have "length src - (idx + len) < n" using Suc.prems by auto
    from Suc.IH [OF this] obtain ts where "tokenLoop n src dps nls (idx + len) = Some ts" by blast
    then show ?thesis using Some a by simp
  qed
qed

lemma tokenize_returns: "length src < fuel \<Longrightarrow> \<exists>ts. tokenize fuel src = Some ts"
proof -
  assume "length src < fuel"
  then have "length src - 0 < fuel" by simp
  from tokenLoop_total [OF this] show ?thesis by (auto simp: tokenize_def Let_def)
qed















































lemma tokenKey_tok [simp]: "tokenKey (tok ty v l c) = (l, c)" "token_value (tok ty v l c) = v"
  by (simp_all add: tokenKey_def tok_def)








section \<open>The example states are states of the pipeline\<close>

text \<open>
  Each example state holds the tokens that \<open>tokenize\<close> returns for its source and the
  tree that \<open>parse\<close> returns for these tokens.
\<close>

lemma structState_run:
  "tokenize 40 (code structState) = Some (tokens structState)
   \<and> parse 10 (tokens structState) = Some (Inr (the (ast structState)))"
  by code_simp

lemma basicState_run:
  "tokenize 40 (code basicState) = Some (tokens basicState)
   \<and> parse 10 (tokens basicState) = Some (Inr (the (ast basicState)))"
  by code_simp

lemma mallocState_run:
  "tokenize 40 (code mallocState) = Some (tokens mallocState)
   \<and> parse 10 (tokens mallocState) = Some (Inr (the (ast mallocState)))"
  by code_simp

lemma mallocStructState_run:
  "tokenize 40 (code mallocStructState) = Some (tokens mallocStructState)
   \<and> parse 10 (tokens mallocStructState) = Some (Inr (the (ast mallocStructState)))"
  by code_simp

lemma forTokens_run:
  "tokenize 40 ''int main() { for (;;) x = 1; }'' = Some forTokens"
  by code_simp
section \<open>Trace generator: the claims\<close>

text \<open>
  Claim C3. A source text that contains both \<open>malloc(\<close> and \<open>struct \<close> is classified
  \<open>dynamic_allocation\<close>, never \<open>structures\<close>: the malloc/free test comes first and
  lowering the case keeps \<open>malloc(\<close> in place.
\<close>

theorem classify_malloc_before_struct:
  "includes_str (code st) ''malloc('' \<Longrightarrow> includes_str (code st) ''struct '' \<Longrightarrow>
     determineCodeType st = ''dynamic_allocation'' \<and> determineCodeType st \<noteq> ''structures''"
  using includes_lower_malloc [of "code st"] by (simp add: determineCodeType_def Let_def)

theorem classify_malloc_before_struct_witness:
  "includes_str (code mallocStructState) ''malloc(''
   \<and> includes_str (code mallocStructState) ''struct ''
   \<and> determineCodeType mallocStructState = ''dynamic_allocation''"
proof -
  have a: "includes_str (code mallocStructState) ''malloc(''"
    by code_simp
  have b: "includes_str (code mallocStructState) ''struct ''"
    by code_simp
  show ?thesis using classify_malloc_before_struct [OF a b] a b by simp
qed







text \<open>
  Claim C6. In every step of every returned list, each key of the heap sub-map is at
  least the heap base, each variable of the stack sub-map has its address below the heap
  base, and each cell of the memory sub-map that carries the name of a stack variable of
  the trace is below the heap base. Moreover every cell of a memory sub-map is below the
  heap base or inside a heap block that the trace records at or above the heap base.
\<close>

theorem heap_stack_partition:
  "\<forall>s \<in> set (fst (generateExecutionSteps st)).
      heapKeysOk s \<and> stackAddressesOk s
      \<and> stackMemoryOk (stackVarNames (fst (generateExecutionSteps st))) s
      \<and> memoryPartitionOk (heapBlocks (fst (generateExecutionSteps st))) s"
  using As_traceOk [of "determineCodeType st" st]
  by (simp add: generateExecutionSteps_def traceOk_def list_all_iff)

theorem heap_stack_partition_witness:
  "fst (generateExecutionSteps mallocState) ! 3 \<in> set (fst (generateExecutionSteps mallocState))
   \<and> fst (generateExecutionSteps mallocState) ! 5 \<in> set (fst (generateExecutionSteps mallocState))
   \<and> map fst (heap (changes (fst (generateExecutionSteps mallocState) ! 3))) = [0x8000]
   \<and> map fst (memory (changes (fst (generateExecutionSteps mallocState) ! 3))) = [0x1000]
   \<and> map fst (memory (changes (fst (generateExecutionSteps mallocState) ! 5))) = [0x8000]
   \<and> heapKeysOk (fst (generateExecutionSteps mallocState) ! 3)
   \<and> stackAddressesOk (fst (generateExecutionSteps mallocState) ! 3)
   \<and> stackMemoryOk (stackVarNames (fst (generateExecutionSteps mallocState)))
        (fst (generateExecutionSteps mallocState) ! 3)
   \<and> memoryPartitionOk (heapBlocks (fst (generateExecutionSteps mallocState)))
        (fst (generateExecutionSteps mallocState) ! 5)"
proof -
  have m: "fst (generateExecutionSteps mallocState) ! 3 \<in> set (fst (generateExecutionSteps mallocState))"
    "fst (generateExecutionSteps mallocState) ! 5 \<in> set (fst (generateExecutionSteps mallocState))"
    by (rule nth_mem, simp add: malloc_length)+
  have "map fst (heap (changes (fst (generateExecutionSteps mallocState) ! 3))) = [0x8000]"
    "map fst (memory (changes (fst (generateExecutionSteps mallocState) ! 3))) = [0x1000]"
    by (simp_all add: malloc_steps_3)
  then show ?thesis using heap_stack_partition [of mallocState] m malloc_steps_5 by blast
qed

text \<open>
  Claim C7. In a returned list, once a step's heap sub-map marks an address freed, no
  later step's heap sub-map holds that address with \<open>freed\<close> false.
\<close>

theorem freed_stays_freed:
  "i < j \<Longrightarrow> j < length (fst (generateExecutionSteps st)) \<Longrightarrow>
     freedAt (fst (generateExecutionSteps st) ! i) a \<Longrightarrow>
     \<not> liveAt (fst (generateExecutionSteps st) ! j) a"
proof -
  assume h: "i < j" "j < length (fst (generateExecutionSteps st))"
    "freedAt (fst (generateExecutionSteps st) ! i) a"
  have "neverUnfreed [] (fst (generateExecutionSteps st))"
    using As_traceOk [of "determineCodeType st" st]
    by (simp add: generateExecutionSteps_def traceOk_def)
  from neverUnfreed_sound [OF this h(2)] h(1,3) show ?thesis by blast
qed

theorem freed_stays_freed_witness:
  "(15::nat) < 18 \<and> 18 < length (fst (generateExecutionSteps mallocState))
   \<and> liveAt (fst (generateExecutionSteps mallocState) ! 3) 0x8000
   \<and> freedAt (fst (generateExecutionSteps mallocState) ! 15) 0x8000
   \<and> \<not> liveAt (fst (generateExecutionSteps mallocState) ! 18) 0x8000"
proof -
  have f: "freedAt (fst (generateExecutionSteps mallocState) ! 15) 0x8000"
    by (simp add: malloc_steps_15 freedAt_def)
  have l: "(18::nat) < length (fst (generateExecutionSteps mallocState))"
    by (simp add: malloc_length)
  have "\<not> liveAt (fst (generateExecutionSteps mallocState) ! 18) 0x8000"
    using freed_stays_freed [of 15 18 mallocState "0x8000"] f l by simp
  then show ?thesis using f l by (simp add: malloc_steps_3 liveAt_def)
qed

section \<open>Parser: the claims\<close>

text \<open>
  Claim C10. On the empty token list \<open>parse\<close> throws \<open>No tokens to parse\<close>, whatever
  the fuel, and so never returns a tree.
\<close>

theorem parse_empty:
  "parse n [] = Some (Inl NoTokens) \<and> errorMessage NoTokens = ''No tokens to parse''
   \<and> parse n [] \<noteq> Some (Inr tree)"
  by (simp add: parse_def)

text \<open>
  Claim C5. \<open>a = b = c\<close> parses as \<open>a = (b = c)\<close>; for each of the thirteen binary
  operators of the logical, relational, additive and multiplicative levels,
  \<open>a op b op c\<close> parses as \<open>(a op b) op c\<close>. Twelve units of fuel are enough.
\<close>

theorem associativity:
  "12 \<le> n \<Longrightarrow>
     parseExpression n [tok ''identifier'' a l1 c1, tok ''operator'' ''='' l2 c2,
        tok ''identifier'' b l3 c3, tok ''operator'' ''='' l4 c4, tok ''identifier'' c l5 c5] 0
       = Some (Inr (node ''assignment_expression'' (Some ''='')
            [node ''identifier'' (Some a) [],
             node ''assignment_expression'' (Some ''='')
               [node ''identifier'' (Some b) [], node ''identifier'' (Some c) []]], 5))
     \<and> ((op, kind) \<in> set binaryOperators \<longrightarrow>
          parseExpression n [tok ''identifier'' a l1 c1, tok ''operator'' op l2 c2,
             tok ''identifier'' b l3 c3, tok ''operator'' op l4 c4, tok ''identifier'' c l5 c5] 0
            = Some (Inr (node kind (Some op)
                 [node kind (Some op)
                    [node ''identifier'' (Some a) [], node ''identifier'' (Some b) []],
                  node ''identifier'' (Some c) []], 5)))"
  using assign_right [of n a l1 c1 l2 c2 b l3 c3 l4 c4 c l5 c5]
    binary_left [of op kind n a l1 c1 l2 c2 b l3 c3 l4 c4 c l5 c5]
  by blast

theorem associativity_witness:
  "(12::nat) \<le> 12 \<and> (''-'', ''additive_expression'') \<in> set binaryOperators
   \<and> parseExpression 12 [tok ''identifier'' ''a'' 1 1, tok ''operator'' ''='' 1 3,
        tok ''identifier'' ''b'' 1 5, tok ''operator'' ''='' 1 7, tok ''identifier'' ''c'' 1 9] 0
       = Some (Inr (node ''assignment_expression'' (Some ''='')
            [node ''identifier'' (Some ''a'') [],
             node ''assignment_expression'' (Some ''='')
               [node ''identifier'' (Some ''b'') [], node ''identifier'' (Some ''c'') []]], 5))
   \<and> parseExpression 12 [tok ''identifier'' ''a'' 1 1, tok ''operator'' ''-'' 1 3,
        tok ''identifier'' ''b'' 1 5, tok ''operator'' ''-'' 1 7, tok ''identifier'' ''c'' 1 9] 0
       = Some (Inr (node ''additive_expression'' (Some ''-'')
            [node ''additive_expression'' (Some ''-'')
               [node ''identifier'' (Some ''a'') [], node ''identifier'' (Some ''b'') []],
             node ''identifier'' (Some ''c'') []], 5))"
proof -
  have m: "(''-'', ''additive_expression'') \<in> set binaryOperators"
    by (simp add: binaryOperators_def)
  show ?thesis
    using associativity [of 12 "''a''" 1 1 1 3 "''b''" 1 5 1 7 "''c''" 1 9 "''-''"
        "''additive_expression''"] m
    by simp
qed




section \<open>Tokenizer: the claims\<close>






end
